theory Spec2Isabelle
  imports Complex_Main "HOL-Library.Multiset"
begin

section \<open>Data model\<close>

text \<open>
  A normalised track is the dict built by \<^verbatim>\<open>get_track_details\<close> (app.py) and
  \<^verbatim>\<open>extract_track_info\<close> (utils.py); a list of such dicts becomes the rows of a pandas
  DataFrame. The metadata keys are always present in such a dict, so they are plain fields.
  The audio-feature keys may be absent from a dict (utils.py adds them only when the lookup
  succeeded), so they are kept as an association list from column name to value; an absent
  key is a NaN cell of the DataFrame. \<^verbatim>\<open>artist_ids\<close> exists only in app.py's dicts. The columns
  \<^verbatim>\<open>year\<close> and \<^verbatim>\<open>similarity\<close> are added later by the pipeline; \<open>None\<close> is a missing cell.
  Floating-point numbers are modelled as exact reals.
\<close>

record track =
  track_id :: string
  name :: string
  artist :: string
  album :: string
  image_url :: "string option"
  preview_url :: "string option"
  popularity :: int
  release_date :: string
  duration_ms :: int
  external_url :: string
  artist_ids :: "string list option"
  features :: "(string \<times> real) list"
  year :: "int option"
  similarity :: "real option"

type_synonym frame = "track list"

section \<open>Candidate aggregation (app.py, recommend\_songs, lines 237-244)\<close>

text \<open>\<^verbatim>\<open>pd.concat(all_tracks, ignore_index=True)\<close>: the rows of the frames, in list order.\<close>

definition pd_concat :: "frame list \<Rightarrow> frame" where
  "pd_concat all_tracks = concat all_tracks"

text \<open>
  \<^verbatim>\<open>df.drop_duplicates(subset=['id'])\<close> with the default \<^verbatim>\<open>keep='first'\<close>: a row is dropped
  when an earlier row has the same id.
\<close>

fun drop_dups :: "string list \<Rightarrow> frame \<Rightarrow> frame" where
  "drop_dups seen [] = []"
| "drop_dups seen (r # rs) =
     (if track_id r \<in> set seen then drop_dups seen rs
      else r # drop_dups (track_id r # seen) rs)"

definition drop_duplicates_id :: "frame \<Rightarrow> frame" where
  "drop_duplicates_id df = drop_dups [] df"

definition remove_seed :: "track \<Rightarrow> frame \<Rightarrow> frame" where
  "remove_seed seed df = filter (\<lambda>r. track_id r \<noteq> track_id seed) df"

definition merge_candidates :: "track \<Rightarrow> frame list \<Rightarrow> frame" where
  "merge_candidates seed all_tracks =
     drop_duplicates_id (remove_seed seed (pd_concat all_tracks))"

section \<open>Filter stage\<close>

datatype py_error = KeyError string | DateParseError string | ValueError string

text \<open>
  The filter dict of app.py (\<^verbatim>\<open>filters\<close>) and the two optional tuples of utils.py: a key that
  is absent (or an argument that is \<^verbatim>\<open>None\<close>) is \<open>None\<close>.
\<close>

record filter_spec =
  popularity_range :: "(int \<times> int) option"
  year_range :: "(int \<times> int) option"

text \<open>
  \<^verbatim>\<open>pd.to_datetime(column).dt.year\<close> belongs to pandas, not to this repository, and it is
  applied to the whole \<^verbatim>\<open>release_date\<close> column at once: the year it gives one row may depend
  on the other rows (from pandas 2.0 one date format is inferred from the first value and
  applied to every value). The functions below take it as the parameter \<open>to_year\<close>, from
  the list of the column's strings to the list of their years, \<open>None\<close> standing for a value
  that pandas does not parse (NaT, whose year is NaN). With \<^verbatim>\<open>errors='coerce'\<close> pandas returns
  that list; with its default \<^verbatim>\<open>errors='raise'\<close> it raises when some value does not parse.
\<close>

definition in_popularity :: "int \<times> int \<Rightarrow> track \<Rightarrow> bool" where
  "in_popularity rng r = (fst rng \<le> popularity r \<and> popularity r \<le> snd rng)"

definition in_year :: "int \<times> int \<Rightarrow> track \<Rightarrow> bool" where
  "in_year rng r = (case year r of None \<Rightarrow> False | Some y \<Rightarrow> fst rng \<le> y \<and> y \<le> snd rng)"

text \<open>\<^verbatim>\<open>df['year'] = pd.to_datetime(df['release_date'], ...).dt.year\<close>.\<close>

definition set_year :: "(string list \<Rightarrow> int option list) \<Rightarrow> frame \<Rightarrow> frame" where
  "set_year to_year df =
     map (\<lambda>(r, y). r\<lparr>year := y\<rparr>) (zip df (to_year (map release_date df)))"

definition dropna_year :: "frame \<Rightarrow> frame" where
  "dropna_year df = filter (\<lambda>r. year r \<noteq> None) df"

text \<open>
  app.py, recommend\_songs, lines 250-259. The frame that reaches these lines has rows
  (line 246), hence the track columns. \<^verbatim>\<open>errors='coerce'\<close> turns a date that does not parse
  into NaT, whose year is NaN, and \<^verbatim>\<open>dropna(subset=['year'])\<close> drops those rows.
\<close>

definition filter_stage ::
  "(string list \<Rightarrow> int option list) \<Rightarrow> filter_spec option \<Rightarrow> frame \<Rightarrow> frame" where
  "filter_stage to_year filters df =
     (case filters of
        None \<Rightarrow> df
      | Some f \<Rightarrow>
          (let df1 = (case popularity_range f of
                        None \<Rightarrow> df
                      | Some rng \<Rightarrow> filter (in_popularity rng) df)
           in case year_range f of
                None \<Rightarrow> df1
              | Some rng \<Rightarrow> filter (in_year rng) (dropna_year (set_year to_year df1))))"

text \<open>
  utils.py builds its frames with \<^verbatim>\<open>pd.DataFrame(tracks_data)\<close> and \<^verbatim>\<open>pd.DataFrame()\<close>: a frame
  built from no dict has no column at all, and selecting a column of it raises KeyError; a
  frame built from track dicts has the track columns, and keeps them when rows are
  filtered out.
\<close>

datatype dataframe = Empty_DataFrame | DataFrame frame

text \<open>
  utils.py, RecommendationEngine.apply\_filters, lines 199-214. Here \<^verbatim>\<open>pd.to_datetime\<close> is
  called with its default \<^verbatim>\<open>errors='raise'\<close>: one date that does not parse, among the rows
  that passed the popularity filter, raises, and nothing in apply\_filters catches it.
\<close>

definition apply_filters ::
  "(string list \<Rightarrow> int option list) \<Rightarrow> dataframe \<Rightarrow> (int \<times> int) option
     \<Rightarrow> (int \<times> int) option \<Rightarrow> py_error + dataframe" where
  "apply_filters to_year df pop_range yr_range =
     (case df of
        Empty_DataFrame \<Rightarrow>
          (case pop_range of
             Some rng \<Rightarrow> Inl (KeyError ''popularity'')
           | None \<Rightarrow>
               (case yr_range of
                  Some rng \<Rightarrow> Inl (KeyError ''release_date'')
                | None \<Rightarrow> Inr Empty_DataFrame))
      | DataFrame rows \<Rightarrow>
          (let filtered_df = (case pop_range of
                                None \<Rightarrow> rows
                              | Some rng \<Rightarrow> filter (in_popularity rng) rows)
           in case yr_range of
                None \<Rightarrow> Inr (DataFrame filtered_df)
              | Some rng \<Rightarrow>
                  (case find (\<lambda>(r, y). y = None)
                          (zip filtered_df (to_year (map release_date filtered_df))) of
                     Some (bad, y) \<Rightarrow> Inl (DateParseError (release_date bad))
                   | None \<Rightarrow>
                       Inr (DataFrame (filter (in_year rng) (set_year to_year filtered_df))))))"

text \<open>Running a second fallible stage on the result of a first one, as a caller would.\<close>

definition and_then :: "py_error + 'a \<Rightarrow> ('a \<Rightarrow> py_error + 'b) \<Rightarrow> py_error + 'b" where
  "and_then m f = (case m of Inl e \<Rightarrow> Inl e | Inr x \<Rightarrow> f x)"

text \<open>
  The year filter in the words of the specification, over the years pandas gives the
  column: each record is paired with its year, and a record is kept when it has a year and
  that year lies in the inclusive range.
\<close>

definition popularity_stage :: "(int \<times> int) option \<Rightarrow> frame \<Rightarrow> frame" where
  "popularity_stage pop_range df =
     (case pop_range of None \<Rightarrow> df | Some rng \<Rightarrow> filter (in_popularity rng) df)"

definition with_years :: "(string list \<Rightarrow> int option list) \<Rightarrow> frame \<Rightarrow> (track \<times> int option) list" where
  "with_years to_year df = zip df (to_year (map release_date df))"

definition year_in_range :: "int \<times> int \<Rightarrow> int option \<Rightarrow> bool" where
  "year_in_range rng y = (case y of None \<Rightarrow> False | Some v \<Rightarrow> fst rng \<le> v \<and> v \<le> snd rng)"

definition kept_by_year ::
  "(string list \<Rightarrow> int option list) \<Rightarrow> int \<times> int \<Rightarrow> frame \<Rightarrow> frame" where
  "kept_by_year to_year rng df =
     map (\<lambda>(r, y). r\<lparr>year := y\<rparr>) (filter (\<lambda>(r, y). year_in_range rng y) (with_years to_year df))"

text \<open>
  A date parser that looks at each string on its own, as \<^verbatim>\<open>pd.to_datetime\<close> does on a column
  whose values all have one format.
\<close>

definition rowwise :: "(string \<Rightarrow> int option) \<Rightarrow> string list \<Rightarrow> int option list" where
  "rowwise f col = map f col"

section \<open>Ranking: DataFrame.nlargest\<close>

text \<open>
  \<^verbatim>\<open>df.nlargest(n, 'similarity')\<close> is pandas', called with its default \<^verbatim>\<open>keep='first'\<close>. A
  non-positive \<open>n\<close> gives no row. When \<open>n\<close> is smaller than the number of rows, pandas
  selects the \<open>n\<close> rows with the largest values, preferring among equal values the rows that
  come first in the frame, and returns them ordered by the column, descending, rows with
  equal values in frame order: a stable insertion sort followed by \<open>take\<close>. When \<open>n\<close> is at
  least the number of rows, pandas returns \<^verbatim>\<open>sort_values(ascending=False).head(n)\<close>, sorted
  with its default algorithm (quicksort), which pandas documents as not stable. That sort
  is the parameter \<open>sort_values\<close>; of it only the contract \<open>descending_sort_of\<close> is assumed:
  its result is a rearrangement of the rows, ordered by the column, descending.
\<close>

fun insort_desc :: "('a \<Rightarrow> real) \<Rightarrow> 'a \<Rightarrow> 'a list \<Rightarrow> 'a list" where
  "insort_desc key x [] = [x]"
| "insort_desc key x (y # ys) =
     (if key y \<le> key x then x # y # ys else y # insort_desc key x ys)"

fun sort_desc :: "('a \<Rightarrow> real) \<Rightarrow> 'a list \<Rightarrow> 'a list" where
  "sort_desc key [] = []"
| "sort_desc key (x # xs) = insort_desc key x (sort_desc key xs)"

definition descending_sort_of :: "('a \<Rightarrow> real) \<Rightarrow> 'a list \<Rightarrow> 'a list \<Rightarrow> bool" where
  "descending_sort_of key df out =
     (mset out = mset df \<and> sorted_wrt (\<lambda>a b. key b \<le> key a) out)"

definition nlargest ::
  "(('a \<Rightarrow> real) \<Rightarrow> 'a list \<Rightarrow> 'a list) \<Rightarrow> int \<Rightarrow> ('a \<Rightarrow> real) \<Rightarrow> 'a list \<Rightarrow> 'a list" where
  "nlargest sort_values n key df =
     (if n \<le> 0 then []
      else if int (length df) \<le> n then take (nat n) (sort_values key df)
      else take (nat n) (sort_desc key df))"

text \<open>The value of the similarity column of a scored row.\<close>

definition similarity_key :: "track \<Rightarrow> real" where
  "similarity_key r = the (similarity r)"

text \<open>app.py line 279: \<^verbatim>\<open>df.nlargest(min(num_recommendations, len(df)), 'similarity')\<close>.\<close>

definition top_recommendations ::
  "((track \<Rightarrow> real) \<Rightarrow> frame \<Rightarrow> frame) \<Rightarrow> int \<Rightarrow> frame \<Rightarrow> frame" where
  "top_recommendations sort_values num_recommendations df =
     nlargest sort_values (min num_recommendations (int (length df))) similarity_key df"

text \<open>
  utils.py line 250: \<^verbatim>\<open>df_with_similarity.nlargest(n, 'similarity')\<close>. When
  calculate\_similarity failed it has returned the candidates without the column, and
  nlargest raises KeyError.
\<close>

definition top_n ::
  "((track \<Rightarrow> real) \<Rightarrow> frame \<Rightarrow> frame) \<Rightarrow> int \<Rightarrow> frame \<Rightarrow> py_error + frame" where
  "top_n sort_values n df =
     (if list_all (\<lambda>r. similarity r \<noteq> None) df
      then Inr (nlargest sort_values n similarity_key df)
      else Inl (KeyError ''similarity''))"

section \<open>Similarity scoring\<close>

text \<open>
  \<^verbatim>\<open>StandardScaler\<close> and \<^verbatim>\<open>cosine_similarity\<close> are scikit-learn's. They are modelled from their
  documented behaviour, over exact reals and on a matrix given as the list of its rows:
  \<^item> \<^verbatim>\<open>fit\<close> takes, for each column, the mean and the population standard deviation
    (\<^verbatim>\<open>ddof = 0\<close>) of the fitted rows; a standard deviation of zero is replaced by 1;
    fitting no row raises ValueError;
  \<^item> \<^verbatim>\<open>transform\<close> subtracts the column's mean and divides by the column's scale;
  \<^item> \<^verbatim>\<open>cosine_similarity(X, Y)\<close> divides every row by its Euclidean norm (a norm of zero is
    replaced by 1) and returns the matrix of dot products; an argument with no row
    raises ValueError.
\<close>

definition mean :: "real list \<Rightarrow> real" where
  "mean xs = sum_list xs / real (length xs)"

definition variance :: "real list \<Rightarrow> real" where
  "variance xs = mean (map (\<lambda>x. (x - mean xs)\<^sup>2) xs)"

definition handle_zeros_in_scale :: "real \<Rightarrow> real" where
  "handle_zeros_in_scale s = (if s = 0 then 1 else s)"

definition column :: "real list list \<Rightarrow> nat \<Rightarrow> real list" where
  "column X j = map (\<lambda>row. row ! j) X"

definition n_features :: "real list list \<Rightarrow> nat" where
  "n_features X = (case X of [] \<Rightarrow> 0 | row # _ \<Rightarrow> length row)"

record scaler =
  scaler_mean :: "real list"
  scaler_scale :: "real list"

definition fit :: "real list list \<Rightarrow> py_error + scaler" where
  "fit X =
     (if X = [] then Inl (ValueError ''Found array with 0 sample(s)'')
      else Inr \<lparr>scaler_mean = map (\<lambda>j. mean (column X j)) [0..<n_features X],
                scaler_scale = map (\<lambda>j. handle_zeros_in_scale (sqrt (variance (column X j))))
                           [0..<n_features X]\<rparr>)"

definition transform_row :: "scaler \<Rightarrow> real list \<Rightarrow> real list" where
  "transform_row sc row = map (\<lambda>(x, m, s). (x - m) / s) (zip row (zip (scaler_mean sc) (scaler_scale sc)))"

definition transform :: "scaler \<Rightarrow> real list list \<Rightarrow> real list list" where
  "transform sc X = map (transform_row sc) X"

definition fit_transform :: "real list list \<Rightarrow> py_error + real list list" where
  "fit_transform X = and_then (fit X) (\<lambda>sc. Inr (transform sc X))"

definition dot :: "real list \<Rightarrow> real list \<Rightarrow> real" where
  "dot u v = sum_list (map (\<lambda>(a, b). a * b) (zip u v))"

definition normalize_row :: "real list \<Rightarrow> real list" where
  "normalize_row v = map (\<lambda>a. a / handle_zeros_in_scale (sqrt (dot v v))) v"

definition cosine_similarity :: "real list list \<Rightarrow> real list list \<Rightarrow> py_error + real list list" where
  "cosine_similarity X Y =
     (if X = [] \<or> Y = [] then Inl (ValueError ''Found array with 0 sample(s)'')
      else Inr (map (\<lambda>x. map (\<lambda>y. dot (normalize_row x) (normalize_row y)) Y) X))"

text \<open>
  \<^verbatim>\<open>df[cols]\<close> raises KeyError when a name of \<open>cols\<close> is not a column of the frame; a frame
  built from a list of dicts has a column for every key of some dict. The columns named
  here are audio-feature columns.
\<close>

definition has_columns :: "string list \<Rightarrow> frame \<Rightarrow> bool" where
  "has_columns cols df =
     list_all (\<lambda>c. list_ex (\<lambda>r. map_of (features r) c \<noteq> None) df) cols"

text \<open>\<^verbatim>\<open>d.get(col, fill)\<close> on a track dict, and \<^verbatim>\<open>df[cols].fillna(fill).values\<close>.\<close>

definition get_feature :: "track \<Rightarrow> string \<Rightarrow> real \<Rightarrow> real" where
  "get_feature r col fill = (case map_of (features r) col of None \<Rightarrow> fill | Some v \<Rightarrow> v)"

definition feature_row :: "real \<Rightarrow> string list \<Rightarrow> track \<Rightarrow> real list" where
  "feature_row fill cols r = map (\<lambda>col. get_feature r col fill) cols"

definition feature_matrix :: "real \<Rightarrow> string list \<Rightarrow> frame \<Rightarrow> real list list" where
  "feature_matrix fill cols df = map (feature_row fill cols) df"

text \<open>
  utils.py, calculate\_similarity, lines 161-169: the seed's row is stacked on top of the
  candidates' rows and the scaler is fitted on, and applied to, the stacked matrix.
\<close>

definition normalized_features :: "string list \<Rightarrow> track \<Rightarrow> frame \<Rightarrow> py_error + real list list" where
  "normalized_features cols seed_features candidate_df =
     (if \<not> has_columns cols candidate_df then Inl (KeyError ''feature_columns'')
      else
        (let seed_vector = [feature_row 0 cols seed_features];
             candidate_features = feature_matrix 0 cols candidate_df;
             all_features = seed_vector @ candidate_features
         in fit_transform all_features))"

text \<open>utils.py, calculate\_similarity, lines 168-172.\<close>

definition similarities :: "string list \<Rightarrow> track \<Rightarrow> frame \<Rightarrow> py_error + real list" where
  "similarities cols seed_features candidate_df =
     and_then (normalized_features cols seed_features candidate_df)
       (\<lambda>normalized.
          and_then (cosine_similarity (take 1 normalized) (drop 1 normalized))
            (\<lambda>K. case K of [] \<Rightarrow> Inl (KeyError ''0'') | k # _ \<Rightarrow> Inr k))"

text \<open>
  app.py, recommend\_songs, lines 269-274: the scaler is fitted on the candidates' rows
  alone, and the fitted scaler is then applied to the seed's row.
\<close>

definition scaled_features ::
  "string list \<Rightarrow> track \<Rightarrow> frame \<Rightarrow> py_error + (real list list \<times> real list list)" where
  "scaled_features cols seed_track_details df =
     (if \<not> has_columns cols df then Inl (KeyError ''feature_cols'')
      else
        (let df_features = feature_matrix 0.5 cols df;
             seed_features = [feature_row 0.5 cols seed_track_details]
         in and_then (fit df_features)
              (\<lambda>scaler. Inr (transform scaler seed_features, transform scaler df_features))))"

text \<open>app.py, recommend\_songs, line 276.\<close>

definition similarities_app :: "string list \<Rightarrow> track \<Rightarrow> frame \<Rightarrow> py_error + real list" where
  "similarities_app cols seed_track_details df =
     and_then (scaled_features cols seed_track_details df)
       (\<lambda>(seed_features_scaled, df_features_scaled).
          and_then (cosine_similarity seed_features_scaled df_features_scaled)
            (\<lambda>K. case K of [] \<Rightarrow> Inl (KeyError ''0'') | k # _ \<Rightarrow> Inr k))"

text \<open>\<^verbatim>\<open>df['similarity'] = similarities\<close>: the column is set row by row.\<close>

definition assign_similarity :: "frame \<Rightarrow> real list \<Rightarrow> frame" where
  "assign_similarity df sims = map (\<lambda>(r, s). r\<lparr>similarity := Some s\<rparr>) (zip df sims)"

text \<open>
  utils.py, calculate\_similarity, lines 159-180, with the DataFrame objects made explicit:
  the heap is the list of the frames that exist, a reference to a frame is its index, and
  \<^verbatim>\<open>candidate_df.copy()\<close> puts a new frame at the end of the heap. When anything in the
  \<^verbatim>\<open>try\<close> block raises, the function returns the reference it was given. The engine's
  scaler is refitted by every call and read by nothing else, so it is left out.
\<close>

definition calculate_similarity ::
  "string list \<Rightarrow> track \<Rightarrow> nat \<Rightarrow> frame list \<Rightarrow> nat \<times> frame list" where
  "calculate_similarity cols seed_features candidate_df heap =
     (case similarities cols seed_features (heap ! candidate_df) of
        Inl e \<Rightarrow> (candidate_df, heap)
      | Inr sims \<Rightarrow>
          (let result_df = length heap
           in (result_df, heap @ [assign_similarity (heap ! candidate_df) sims])))"

text \<open>
  app.py, recommend\_songs, lines 265-279: the candidates are scored against the seed, the
  similarity column is set, and the best rows are kept.
\<close>

definition score_and_rank ::
  "((track \<Rightarrow> real) \<Rightarrow> frame \<Rightarrow> frame) \<Rightarrow> string list \<Rightarrow> track \<Rightarrow> int \<Rightarrow> frame
     \<Rightarrow> py_error + frame" where
  "score_and_rank sort_values cols seed_track_details num_recommendations df =
     and_then (similarities_app cols seed_track_details df)
       (\<lambda>sims. Inr (top_recommendations sort_values num_recommendations
                       (assign_similarity df sims)))"

text \<open>
  utils.py, RecommendationEngine.recommend, lines 236-252. The frame that
  calculate\_similarity returns is the candidates' frame itself when the computation
  failed, and the candidates with their similarity otherwise.
\<close>

definition recommend ::
  "(string list \<Rightarrow> int option list) \<Rightarrow> ((track \<Rightarrow> real) \<Rightarrow> frame \<Rightarrow> frame) \<Rightarrow> string list
     \<Rightarrow> track \<Rightarrow> dataframe \<Rightarrow> int \<Rightarrow> filter_spec option \<Rightarrow> py_error + dataframe" where
  "recommend to_year sort_values cols seed_track candidates_df n filters =
     and_then
       (case filters of
          None \<Rightarrow> Inr candidates_df
        | Some f \<Rightarrow> apply_filters to_year candidates_df (popularity_range f) (year_range f))
       (\<lambda>candidates.
          case candidates of
            Empty_DataFrame \<Rightarrow> Inr Empty_DataFrame
          | DataFrame rows \<Rightarrow>
              (if rows = [] then Inr Empty_DataFrame
               else
                 (let df_with_similarity =
                        (case similarities cols seed_track rows of
                           Inl e \<Rightarrow> rows
                         | Inr sims \<Rightarrow> assign_similarity rows sims)
                  in and_then (top_n sort_values n df_with_similarity)
                       (\<lambda>recommendations. Inr (DataFrame recommendations)))))"

text \<open>The nine feature columns of both files (utils.py lines 19-23, app.py lines 265-267).\<close>

definition feature_cols :: "string list" where
  "feature_cols = [''danceability'', ''energy'', ''valence'', ''tempo'', ''acousticness'',
     ''liveness'', ''instrumentalness'', ''loudness'', ''speechiness'']"

text \<open>
  Standardization in the words of the specification: from each value, subtract the mean of
  its column in the matrix \<open>M\<close> and divide by the standard deviation of that column in \<open>M\<close>
  (by 1 when that deviation is zero); and the cosine of two vectors, zero when one of them
  is the zero vector.
\<close>

definition col_mean :: "real list list \<Rightarrow> nat \<Rightarrow> real" where
  "col_mean M j = (\<Sum>row\<leftarrow>M. row ! j) / real (length M)"

definition col_std :: "real list list \<Rightarrow> nat \<Rightarrow> real" where
  "col_std M j = sqrt ((\<Sum>row\<leftarrow>M. (row ! j - col_mean M j)\<^sup>2) / real (length M))"

definition standardized :: "real list list \<Rightarrow> real list \<Rightarrow> real list" where
  "standardized M v =
     map (\<lambda>j. (v ! j - col_mean M j) / (if col_std M j = 0 then 1 else col_std M j))
       [0..<length v]"

definition cosine :: "real list \<Rightarrow> real list \<Rightarrow> real" where
  "cosine u v =
     (if dot u u = 0 \<or> dot v v = 0 then 0 else dot u v / (sqrt (dot u u) * sqrt (dot v v)))"

section \<open>Catalog records, the client and normalisation\<close>

text \<open>
  The JSON objects of the catalog as the code reads them. A key that the code reads with
  \<^verbatim>\<open>d[key]\<close> is an optional field: \<open>None\<close> is an absent key, and reading it raises KeyError.
  \<^verbatim>\<open>preview_url\<close> may be present with the value null. An audio-features object maps a
  feature name to a number or to null.
\<close>

record raw_artist =
  artist_id :: "string option"
  artist_name :: "string option"

record raw_image =
  image_link :: "string option"

record raw_album =
  album_name :: "string option"
  album_images :: "raw_image list option"
  album_release_date :: "string option"

record raw_track =
  t_id :: "string option"
  t_name :: "string option"
  t_artists :: "raw_artist list option"
  t_album :: "raw_album option"
  t_preview_url :: "string option option"
  t_popularity :: "int option"
  t_duration_ms :: "int option"
  t_external_urls :: "(string \<times> string) list option"

type_synonym audio_features = "(string \<times> real option) list"

text \<open>
  The client \<^verbatim>\<open>sp\<close> is the environment: each call either raises (with the text of the
  exception) or returns. \<^verbatim>\<open>sp.audio_features\<close> returns \<^verbatim>\<open>None\<close> or a list whose entries are
  feature objects or \<^verbatim>\<open>None\<close>; \<^verbatim>\<open>sp.search\<close> and \<^verbatim>\<open>sp.recommendations\<close> return the tracks of
  their response (a response without them makes the code raise KeyError, which is a raise
  here). The calls a function issues are returned next to its result.
\<close>

datatype 'a response = Raises string | Returns 'a

record spotify =
  audio_features_api :: "string \<Rightarrow> audio_features option list option response"
  search_api :: "string \<Rightarrow> int \<Rightarrow> raw_track list response"
  recommendations_api :: "string list \<Rightarrow> int \<Rightarrow> (string \<times> real) list \<Rightarrow> raw_track list response"

datatype api_call =
  Audio_Features_Call string
| Search_Call string int
| Recommendations_Call "string list" int "(string \<times> real) list"

definition item :: "string \<Rightarrow> 'a option \<Rightarrow> py_error + 'a" where
  "item key v = (case v of None \<Rightarrow> Inl (KeyError key) | Some x \<Rightarrow> Inr x)"

fun items :: "string \<Rightarrow> ('a \<Rightarrow> 'b option) \<Rightarrow> 'a list \<Rightarrow> py_error + 'b list" where
  "items key f [] = Inr []"
| "items key f (x # xs) =
     and_then (item key (f x)) (\<lambda>y. and_then (items key f xs) (\<lambda>ys. Inr (y # ys)))"

text \<open>\<^verbatim>\<open>', '.join(names)\<close>.\<close>

fun join :: "string list \<Rightarrow> string" where
  "join [] = []"
| "join [s] = s"
| "join (s # t # ts) = s @ '', '' @ join (t # ts)"

text \<open>
  app.py, get\_audio\_features, lines 113-121. Its second result, a message, is discarded by
  its only caller and is left out.
\<close>

definition get_audio_features :: "spotify \<Rightarrow> string \<Rightarrow> audio_features" where
  "get_audio_features sp tid =
     (case audio_features_api sp tid of
        Raises e \<Rightarrow> []
      | Returns None \<Rightarrow> []
      | Returns (Some []) \<Rightarrow> []
      | Returns (Some (None # rest)) \<Rightarrow> []
      | Returns (Some (Some feats # rest)) \<Rightarrow> feats)"

text \<open>
  The ten metadata entries of the dict literal that both files build (app.py lines 129-139,
  utils.py lines 75-86), read in the order of the literal.
\<close>

definition track_metadata :: "raw_track \<Rightarrow> py_error + track" where
  "track_metadata t =
     and_then (item ''id'' (t_id t)) (\<lambda>i.
     and_then (item ''name'' (t_name t)) (\<lambda>n.
     and_then (item ''artists'' (t_artists t)) (\<lambda>arts.
     and_then (items ''name'' artist_name arts) (\<lambda>names.
     and_then (item ''album'' (t_album t)) (\<lambda>alb.
     and_then (item ''name'' (album_name alb)) (\<lambda>alb_name.
     and_then (item ''images'' (album_images alb)) (\<lambda>imgs.
     and_then (case imgs of [] \<Rightarrow> Inr None
               | img # rest \<Rightarrow> and_then (item ''url'' (image_link img)) (\<lambda>u. Inr (Some u))) (\<lambda>img_url.
     and_then (item ''preview_url'' (t_preview_url t)) (\<lambda>preview.
     and_then (item ''popularity'' (t_popularity t)) (\<lambda>pop.
     and_then (item ''release_date'' (album_release_date alb)) (\<lambda>date.
     and_then (item ''duration_ms'' (t_duration_ms t)) (\<lambda>dur.
     and_then (item ''external_urls'' (t_external_urls t)) (\<lambda>urls.
     and_then (item ''spotify'' (map_of urls ''spotify'')) (\<lambda>ext.
       Inr \<lparr>track_id = i, name = n, artist = join names, album = alb_name,
            image_url = img_url, preview_url = preview, popularity = pop,
            release_date = date, duration_ms = dur, external_url = ext,
            artist_ids = None, features = [], year = None, similarity = None\<rparr>))))))))))))))"

text \<open>
  The defaults of app.py lines 144-156, in the order of the dict literal.
  \<^verbatim>\<open>audio_features.get(k, default)\<close> gives the default for an absent key and the stored value
  otherwise; a stored null stays null, which is a missing cell of the record.
\<close>

definition feature_defaults :: "(string \<times> real) list" where
  "feature_defaults =
     [(''danceability'', 0.5), (''energy'', 0.5), (''valence'', 0.5), (''tempo'', 120),
      (''acousticness'', 0.5), (''liveness'', 0.5), (''instrumentalness'', 0.5),
      (''loudness'', - 10), (''speechiness'', 0.5), (''key'', 0), (''mode'', 1)]"

definition get_or_default :: "audio_features \<Rightarrow> string \<times> real \<Rightarrow> (string \<times> real) option" where
  "get_or_default af kd =
     (case map_of af (fst kd) of
        None \<Rightarrow> Some kd
      | Some None \<Rightarrow> None
      | Some (Some v) \<Rightarrow> Some (fst kd, v))"

definition features_with_defaults :: "audio_features \<Rightarrow> (string \<times> real) list" where
  "features_with_defaults af = List.map_filter (get_or_default af) feature_defaults"

definition error_text :: "py_error \<Rightarrow> string" where
  "error_text e =
     (case e of
        KeyError k \<Rightarrow> ''Error: '' @ [CHR 0x27] @ k @ [CHR 0x27]
      | DateParseError s \<Rightarrow> ''Error: '' @ s
      | ValueError s \<Rightarrow> ''Error: '' @ s)"

text \<open>app.py, get\_track\_details, lines 124-160: the details, or a message.\<close>

definition get_track_details :: "spotify \<Rightarrow> raw_track \<Rightarrow> track option \<times> string option" where
  "get_track_details sp t =
     (case and_then (item ''id'' (t_id t)) (\<lambda>i.
             (let audio_features = get_audio_features sp i
              in and_then (track_metadata t) (\<lambda>details.
                 and_then (item ''artists'' (t_artists t)) (\<lambda>arts.
                 and_then (items ''id'' artist_id arts) (\<lambda>ids.
                   Inr (details\<lparr>artist_ids := Some ids,
                                 features := features_with_defaults audio_features\<rparr>)))))) of
        Inl e \<Rightarrow> (None, Some (error_text e))
      | Inr details \<Rightarrow> (Some details, None))"

text \<open>The calls that reading one track issues: the feature lookup, once the id is read.\<close>

definition track_calls :: "raw_track \<Rightarrow> api_call list" where
  "track_calls t = (case t_id t of None \<Rightarrow> [] | Some i \<Rightarrow> [Audio_Features_Call i])"

text \<open>utils.py, SpotifyDataProcessor.get\_audio\_features, lines 55-60.\<close>

definition processor_audio_features :: "spotify \<Rightarrow> string \<Rightarrow> audio_features option" where
  "processor_audio_features sp tid =
     (case audio_features_api sp tid of
        Raises e \<Rightarrow> None
      | Returns None \<Rightarrow> None
      | Returns (Some []) \<Rightarrow> None
      | Returns (Some (first # rest)) \<Rightarrow> first)"

text \<open>
  utils.py, extract\_track\_info, lines 72-106. The features are copied only when the lookup
  gave a non-empty object, each with \<^verbatim>\<open>audio_features[key]\<close>, which raises KeyError for an
  absent key; every exception ends in \<^verbatim>\<open>return None\<close>.
\<close>

definition copied_features :: "audio_features \<Rightarrow> py_error + (string \<times> real) list" where
  "copied_features af =
     and_then (items ''feature'' (\<lambda>kd. map_of af (fst kd)) feature_defaults) (\<lambda>values.
       Inr (List.map_filter (\<lambda>(kd, v). case v of None \<Rightarrow> None | Some x \<Rightarrow> Some (fst kd, x))
              (zip feature_defaults values)))"

definition extract_track_info :: "spotify \<Rightarrow> raw_track \<Rightarrow> track option" where
  "extract_track_info sp t =
     (case and_then (item ''id'' (t_id t)) (\<lambda>i.
             (let audio_features = processor_audio_features sp i
              in and_then (track_metadata t) (\<lambda>info.
                   (case audio_features of
                      None \<Rightarrow> Inr info
                    | Some af \<Rightarrow>
                        (if af = [] then Inr info
                         else and_then (copied_features af) (\<lambda>fs. Inr (info\<lparr>features := fs\<rparr>))))))) of
        Inl e \<Rightarrow> None
      | Inr info \<Rightarrow> Some info)"

text \<open>\<^verbatim>\<open>pd.DataFrame(tracks_data)\<close>: no dict, no column.\<close>

definition data_frame :: "track list \<Rightarrow> dataframe" where
  "data_frame tracks_data = (if tracks_data = [] then Empty_DataFrame else DataFrame tracks_data)"

section \<open>Mood-based recommendations\<close>

text \<open>app.py, get\_mood\_based\_recommendations, lines 288-294: the query of each mood.\<close>

definition mood_queries :: "(string \<times> string) list" where
  "mood_queries =
     [(''happy'', ''happy upbeat pop dance''),
      (''chill'', ''chill relax ambient calm''),
      (''workout'', ''workout energy gym motivation''),
      (''sad'', ''sad emotional melancholy''),
      (''party'', ''party dance club edm'')]"

text \<open>The loop of lines 303-309: details are appended until there are enough of them.\<close>

fun collect_details ::
  "spotify \<Rightarrow> int \<Rightarrow> raw_track list \<Rightarrow> track list \<Rightarrow> api_call list
     \<Rightarrow> track list \<times> api_call list" where
  "collect_details sp num [] tracks_data calls = (tracks_data, calls)"
| "collect_details sp num (t # ts) tracks_data calls =
     (case get_track_details sp t of
        (Some details, None) \<Rightarrow>
          (if num \<le> int (length (tracks_data @ [details]))
           then (tracks_data @ [details], calls @ track_calls t)
           else collect_details sp num ts (tracks_data @ [details]) (calls @ track_calls t))
      | (Some details, Some error) \<Rightarrow> collect_details sp num ts tracks_data (calls @ track_calls t)
      | (None, error) \<Rightarrow> collect_details sp num ts tracks_data (calls @ track_calls t))"

text \<open>
  app.py, get\_mood\_based\_recommendations, lines 296-313: the frame and the message, and
  the calls issued.
\<close>

definition get_mood_based_recommendations ::
  "spotify \<Rightarrow> string \<Rightarrow> int \<Rightarrow> (dataframe \<times> string option) \<times> api_call list" where
  "get_mood_based_recommendations sp mood num_recommendations =
     (case map_of mood_queries mood of
        None \<Rightarrow> ((Empty_DataFrame, Some ''Invalid mood''), [])
      | Some query \<Rightarrow>
          (case search_api sp query (num_recommendations * 2) of
             Raises e \<Rightarrow>
               ((Empty_DataFrame, Some (''Error: '' @ e)),
                [Search_Call query (num_recommendations * 2)])
           | Returns results \<Rightarrow>
               (case collect_details sp num_recommendations results []
                       [Search_Call query (num_recommendations * 2)] of
                  (tracks_data, calls) \<Rightarrow> ((data_frame tracks_data, None), calls))))"

text \<open>utils.py, MoodRecommender.MOOD\_PARAMETERS, lines 309-335.\<close>

definition mood_parameters :: "(string \<times> (string \<times> real) list) list" where
  "mood_parameters =
     [(''happy'', [(''target_valence'', 0.8), (''target_energy'', 0.7),
                   (''target_danceability'', 0.7)]),
      (''chill'', [(''target_valence'', 0.5), (''target_energy'', 0.3),
                   (''target_acousticness'', 0.6)]),
      (''workout'', [(''target_energy'', 0.85), (''target_tempo'', 140),
                     (''target_danceability'', 0.7)]),
      (''sad'', [(''target_valence'', 0.2), (''target_energy'', 0.3),
                 (''target_acousticness'', 0.5)]),
      (''party'', [(''target_danceability'', 0.85), (''target_energy'', 0.8),
                   (''target_valence'', 0.7)])]"

text \<open>The loop of utils.py lines 369-373.\<close>

fun collect_info :: "spotify \<Rightarrow> raw_track list \<Rightarrow> track list \<times> api_call list" where
  "collect_info sp [] = ([], [])"
| "collect_info sp (t # ts) =
     (case collect_info sp ts of
        (rest, calls) \<Rightarrow>
          (case extract_track_info sp t of
             None \<Rightarrow> (rest, track_calls t @ calls)
           | Some info \<Rightarrow> (info # rest, track_calls t @ calls)))"

text \<open>
  utils.py, MoodRecommender.get\_mood\_recommendations, lines 356-378: the frame, and the
  calls issued. The function has no second result.
\<close>

definition get_mood_recommendations ::
  "spotify \<Rightarrow> string \<Rightarrow> int \<Rightarrow> dataframe \<times> api_call list" where
  "get_mood_recommendations sp mood limit =
     (case map_of mood_parameters mood of
        None \<Rightarrow> (Empty_DataFrame, [])
      | Some params \<Rightarrow>
          (let seed_genres = (if mood \<noteq> ''workout'' then [mood] else [''rock'', ''electronic''])
           in case recommendations_api sp seed_genres limit params of
                Raises e \<Rightarrow> (Empty_DataFrame, [Recommendations_Call seed_genres limit params])
              | Returns tracks \<Rightarrow>
                  (case collect_info sp tracks of
                     (tracks_data, calls) \<Rightarrow>
                       (data_frame tracks_data,
                        Recommendations_Call seed_genres limit params # calls))))"

text \<open>
  A raw track that contains the required metadata: every key that the dict literal reads
  is present, in the track, in each of its artists, in its album and in the first image of
  the album when there is one.
\<close>

definition has_required_metadata :: "raw_track \<Rightarrow> bool" where
  "has_required_metadata t =
     (t_id t \<noteq> None \<and> t_name t \<noteq> None \<and>
      (case t_artists t of
         None \<Rightarrow> False
       | Some arts \<Rightarrow> list_all (\<lambda>a. artist_name a \<noteq> None \<and> artist_id a \<noteq> None) arts) \<and>
      (case t_album t of
         None \<Rightarrow> False
       | Some alb \<Rightarrow>
           album_name alb \<noteq> None \<and> album_release_date alb \<noteq> None \<and>
           (case album_images alb of
              None \<Rightarrow> False
            | Some [] \<Rightarrow> True
            | Some (img # rest) \<Rightarrow> image_link img \<noteq> None)) \<and>
      t_preview_url t \<noteq> None \<and> t_popularity t \<noteq> None \<and> t_duration_ms t \<noteq> None \<and>
      (case t_external_urls t of
         None \<Rightarrow> False
       | Some urls \<Rightarrow> map_of urls ''spotify'' \<noteq> None))"

section \<open>Example data\<close>

text \<open>Concrete inputs on which the theorems below are instantiated.\<close>

definition example_track :: "string \<Rightarrow> int \<Rightarrow> string \<Rightarrow> (string \<times> real) list \<Rightarrow> track" where
  "example_track i p d fs =
     \<lparr>track_id = i, name = ''Song'', artist = ''Artist'', album = ''Album'',
      image_url = None, preview_url = None, popularity = p, release_date = d,
      duration_ms = 200000, external_url = ''https://open.spotify.com/track/x'',
      artist_ids = Some [''artist1''], features = fs, year = None, similarity = None\<rparr>"

text \<open>
  Sample date parsers. \<open>example_to_year\<close> reads one string: four digits, alone or followed
  by a hyphen, spell the year; every other string does not parse.
  \<open>example_to_datetime_year\<close> reads a column the way pandas 2 does on the three precisions
  of a catalog date: the format of the first value (year, year-month or year-month-day) is
  applied to every value, and a value of another format does not parse; when the first
  value has none of these formats, each value is read on its own.
\<close>

definition is_digit :: "char \<Rightarrow> bool" where
  "is_digit c = (c \<in> set ''0123456789'')"

definition digit_val :: "char \<Rightarrow> int" where
  "digit_val c = int (of_char c) - 48"

definition example_to_year :: "string \<Rightarrow> int option" where
  "example_to_year s =
     (case s of
        a # b # c # d # rest \<Rightarrow>
          (if list_all is_digit [a, b, c, d] \<and> (rest = [] \<or> hd rest = CHR ''-'')
           then Some (1000 * digit_val a + 100 * digit_val b + 10 * digit_val c + digit_val d)
           else None)
      | _ \<Rightarrow> None)"

datatype date_format = Year_Only | Year_Month | Year_Month_Day

definition guess_format :: "string \<Rightarrow> date_format option" where
  "guess_format s =
     (if example_to_year s = None then None
      else if length s = 4 then Some Year_Only
      else if length s = 7 then Some Year_Month
      else if length s = 10 then Some Year_Month_Day
      else None)"

definition example_to_datetime_year :: "string list \<Rightarrow> int option list" where
  "example_to_datetime_year col =
     (case col of
        [] \<Rightarrow> []
      | first # _ \<Rightarrow>
          (case guess_format first of
             None \<Rightarrow> map (\<lambda>s. if guess_format s = None then None else example_to_year s) col
           | Some fmt \<Rightarrow>
               map (\<lambda>s. if guess_format s = Some fmt then example_to_year s else None) col))"

text \<open>
  A sample of the unstable sort: it orders by the column, descending, and leaves rows with
  equal values in the reverse of their frame order, which the contract allows.
\<close>

definition example_sort_values :: "('a \<Rightarrow> real) \<Rightarrow> 'a list \<Rightarrow> 'a list" where
  "example_sort_values key df = sort_desc key (rev df)"

definition example_features :: "real \<Rightarrow> real \<Rightarrow> (string \<times> real) list" where
  "example_features d e =
     [(''danceability'', d), (''energy'', e), (''valence'', 0.6), (''tempo'', 120),
      (''acousticness'', 0.1), (''liveness'', 0.1), (''instrumentalness'', 0),
      (''loudness'', -5), (''speechiness'', 0.05), (''key'', 0), (''mode'', 1)]"

text \<open>
  Sample features that are all binary fractions: on them the sums and the divisions of the
  means are exact in floating point too.
\<close>

definition example_binary_features :: "real \<Rightarrow> (string \<times> real) list" where
  "example_binary_features d =
     [(''danceability'', d), (''energy'', 0.5), (''valence'', 0.5), (''tempo'', 120),
      (''acousticness'', 0.25), (''liveness'', 0.25), (''instrumentalness'', 0),
      (''loudness'', -5), (''speechiness'', 0.125), (''key'', 0), (''mode'', 1)]"

text \<open>A sample raw track with every metadata key, and a sample client.\<close>

definition example_raw_track :: "string \<Rightarrow> raw_track" where
  "example_raw_track i =
     \<lparr>t_id = Some i, t_name = Some ''Song'',
      t_artists = Some [\<lparr>artist_id = Some ''artist1'', artist_name = Some ''Artist''\<rparr>],
      t_album = Some \<lparr>album_name = Some ''Album'', album_images = Some [],
                       album_release_date = Some ''2020''\<rparr>,
      t_preview_url = Some None, t_popularity = Some 50, t_duration_ms = Some 200000,
      t_external_urls = Some [(''spotify'', ''https://open.spotify.com/track/x'')]\<rparr>"

definition example_client :: "audio_features option list option response \<Rightarrow> spotify" where
  "example_client lookup =
     \<lparr>audio_features_api = (\<lambda>i. lookup),
      search_api = (\<lambda>q n. Returns []),
      recommendations_api = (\<lambda>genres n params. Returns [])\<rparr>"

section \<open>Proofs\<close>

subsection \<open>Aggregation\<close>

lemma drop_dups_set:
  "track_id ` set (drop_dups seen df) = track_id ` set df - set seen"
  by (induction df arbitrary: seen) auto

lemma drop_dups_subset: "set (drop_dups seen df) \<subseteq> set df"
  by (induction df arbitrary: seen) auto

lemma drop_dups_distinct: "distinct (map track_id (drop_dups seen df))"
proof (induction df arbitrary: seen)
  case Nil
  show ?case by simp
next
  case (Cons r rs)
  have "track_id r \<notin> track_id ` set (drop_dups (track_id r # seen) rs)"
    by (simp add: drop_dups_set)
  with Cons show ?case by simp
qed

lemma drop_dups_first:
  "r \<in> set (drop_dups seen df) \<Longrightarrow> find (\<lambda>x. track_id x = track_id r) df = Some r"
proof (induction df arbitrary: seen)
  case Nil
  then show ?case by simp
next
  case (Cons a rs)
  show ?case
  proof (cases "track_id a \<in> set seen")
    case True
    with Cons.prems have mem: "r \<in> set (drop_dups seen rs)" by simp
    then have "track_id r \<in> track_id ` set (drop_dups seen rs)" by blast
    then have "track_id r \<notin> set seen" by (simp add: drop_dups_set)
    with True have "track_id a \<noteq> track_id r" by auto
    with Cons.IH [OF mem] show ?thesis by simp
  next
    case False
    with Cons.prems have "r = a \<or> r \<in> set (drop_dups (track_id a # seen) rs)" by simp
    then show ?thesis
    proof
      assume "r = a"
      then show ?thesis by simp
    next
      assume mem: "r \<in> set (drop_dups (track_id a # seen) rs)"
      then have "track_id r \<in> track_id ` set (drop_dups (track_id a # seen) rs)" by blast
      then have "track_id r \<noteq> track_id a" by (simp add: drop_dups_set)
      with Cons.IH [OF mem] show ?thesis by simp
    qed
  qed
qed

lemma find_filter_other:
  "P r \<Longrightarrow> find (\<lambda>x. track_id x = track_id r) (filter P df) = Some r
     \<Longrightarrow> (\<And>x. track_id x = track_id r \<Longrightarrow> P x)
     \<Longrightarrow> find (\<lambda>x. track_id x = track_id r) df = Some r"
  by (induction df) (auto split: if_splits)

text \<open>
  C3. For every seed and every list of strategy results, the merged pool holds no record
  with the seed's id and no two records with one id; each record kept is the first one
  with its id in the concatenation of the strategy results; and every id of the
  concatenation other than the seed's is kept.
\<close>

theorem merge_candidates_unique_first:
  "(\<forall>r \<in> set (merge_candidates seed all_tracks). track_id r \<noteq> track_id seed) \<and>
   distinct (map track_id (merge_candidates seed all_tracks)) \<and>
   (\<forall>r \<in> set (merge_candidates seed all_tracks).
      find (\<lambda>x. track_id x = track_id r) (pd_concat all_tracks) = Some r) \<and>
   track_id ` set (merge_candidates seed all_tracks)
     = track_id ` set (pd_concat all_tracks) - {track_id seed}"
proof (intro conjI ballI)
  fix r
  assume "r \<in> set (merge_candidates seed all_tracks)"
  then have "r \<in> set (remove_seed seed (pd_concat all_tracks))"
    using drop_dups_subset by (auto simp: merge_candidates_def drop_duplicates_id_def)
  then show "track_id r \<noteq> track_id seed" by (simp add: remove_seed_def)
next
  show "distinct (map track_id (merge_candidates seed all_tracks))"
    by (simp add: merge_candidates_def drop_duplicates_id_def drop_dups_distinct)
next
  fix r
  assume mem: "r \<in> set (merge_candidates seed all_tracks)"
  then have fnd: "find (\<lambda>x. track_id x = track_id r)
                    (filter (\<lambda>x. track_id x \<noteq> track_id seed) (pd_concat all_tracks)) = Some r"
    by (simp add: merge_candidates_def drop_duplicates_id_def remove_seed_def drop_dups_first)
  from mem have "r \<in> set (remove_seed seed (pd_concat all_tracks))"
    using drop_dups_subset by (auto simp: merge_candidates_def drop_duplicates_id_def)
  then have ne: "track_id r \<noteq> track_id seed" by (simp add: remove_seed_def)
  show "find (\<lambda>x. track_id x = track_id r) (pd_concat all_tracks) = Some r"
    by (rule find_filter_other [OF ne fnd]) (simp add: ne)
next
  show "track_id ` set (merge_candidates seed all_tracks)
          = track_id ` set (pd_concat all_tracks) - {track_id seed}"
    by (auto simp: merge_candidates_def drop_duplicates_id_def remove_seed_def drop_dups_set)
qed

theorem merge_candidates_unique_first_witness:
  "map track_id
     (merge_candidates (example_track ''s'' 50 ''2020'' [])
        [[example_track ''a'' 10 ''2001'' [], example_track ''s'' 50 ''2020'' []],
         [example_track ''a'' 99 ''2002'' [], example_track ''b'' 30 ''2003'' []]])
     = [''a'', ''b''] \<and>
   map popularity
     (merge_candidates (example_track ''s'' 50 ''2020'' [])
        [[example_track ''a'' 10 ''2001'' [], example_track ''s'' 50 ''2020'' []],
         [example_track ''a'' 99 ''2002'' [], example_track ''b'' 30 ''2003'' []]])
     = [10, 30] \<and>
   distinct (map track_id
     (merge_candidates (example_track ''s'' 50 ''2020'' [])
        [[example_track ''a'' 10 ''2001'' [], example_track ''s'' 50 ''2020'' []],
         [example_track ''a'' 99 ''2002'' [], example_track ''b'' 30 ''2003'' []]]))"
  using merge_candidates_unique_first
    [of "example_track ''s'' 50 ''2020'' []"
        "[[example_track ''a'' 10 ''2001'' [], example_track ''s'' 50 ''2020'' []],
          [example_track ''a'' 99 ''2002'' [], example_track ''b'' 30 ''2003'' []]]"]
  by (simp add: merge_candidates_def drop_duplicates_id_def remove_seed_def pd_concat_def
      example_track_def)


subsection \<open>Filter stage\<close>

lemma in_year_upd: "in_year rng (r\<lparr>year := y\<rparr>) = year_in_range rng y"
  by (simp add: in_year_def year_in_range_def)

lemma in_popularity_row: "in_popularity rng (r\<lparr>year := y\<rparr>) = in_popularity rng r"
  by (simp add: in_popularity_def)

lemma year_in_range_None: "\<not> year_in_range rng None"
  by (simp add: year_in_range_def)

lemma year_stage_strict:
  "filter (in_year rng) (map (\<lambda>(r, y). r\<lparr>year := y\<rparr>) ps)
     = map (\<lambda>(r, y). r\<lparr>year := y\<rparr>) (filter (\<lambda>(r, y). year_in_range rng y) ps)"
proof (induction ps)
  case Nil
  show ?case by simp
next
  case (Cons p ps)
  obtain r y where p: "p = (r, y)" by (cases p)
  show ?case unfolding p using Cons.IH by (simp add: in_year_upd)
qed

lemma in_year_not_None: "year r = None \<Longrightarrow> \<not> in_year rng r"
  by (simp add: in_year_def)

lemma in_year_dropna: "filter (in_year rng) (dropna_year df) = filter (in_year rng) df"
  unfolding dropna_year_def by (induction df) (simp_all add: in_year_not_None)

lemma year_stage_coerce:
  "filter (in_year rng) (dropna_year (set_year to_year df)) = kept_by_year to_year rng df"
  unfolding in_year_dropna set_year_def kept_by_year_def with_years_def
  by (rule year_stage_strict)

lemma filter_stage_eq:
  "filter_stage to_year (Some f) df =
     (case year_range f of
        None \<Rightarrow> popularity_stage (popularity_range f) df
      | Some rng \<Rightarrow> kept_by_year to_year rng (popularity_stage (popularity_range f) df))"
  by (simp add: filter_stage_def popularity_stage_def year_stage_coerce Let_def
      split: option.splits)

lemma find_pair_None:
  "(find (\<lambda>(r, y). y = None) ps = None) = list_all (\<lambda>y. y \<noteq> None) (map snd ps)"
  by (induction ps) (simp_all add: case_prod_unfold)

lemma apply_filters_eq:
  "apply_filters to_year (DataFrame rows) pr yr =
     (case yr of
        None \<Rightarrow> Inr (DataFrame (popularity_stage pr rows))
      | Some rng \<Rightarrow>
          (case find (\<lambda>(r, y). y = None) (with_years to_year (popularity_stage pr rows)) of
             Some (bad, y) \<Rightarrow> Inl (DateParseError (release_date bad))
           | None \<Rightarrow> Inr (DataFrame (kept_by_year to_year rng (popularity_stage pr rows)))))"
proof -
  have k: "\<And>df. filter (in_year rng) (set_year to_year df) = kept_by_year to_year rng df" for rng
    unfolding set_year_def kept_by_year_def with_years_def by (rule year_stage_strict)
  show ?thesis
    by (simp add: apply_filters_def popularity_stage_def with_years_def k Let_def
        split: option.splits)
qed

text \<open>
  C6 (amended). With a year range in the filter, and pandas giving one year (or none) for
  each release date of the column, the filter stage of recommend\_songs (app.py) pairs
  every record that passed the popularity filter with the year pandas gives it and returns
  exactly the records that have a year inside the inclusive range, in pool order, each with
  its year column set; a record without a year is dropped and the stage always returns.
  apply\_filters (utils.py) returns the same frame whenever pandas gives every record that
  passed the popularity filter a year.
\<close>

theorem year_filter_keeps_exactly:
  assumes "length (to_year (map release_date (popularity_stage pr df)))
             = length (popularity_stage pr df)"
  shows "filter_stage to_year (Some \<lparr>popularity_range = pr, year_range = Some rng\<rparr>) df
       = kept_by_year to_year rng (popularity_stage pr df) \<and>
     map fst (with_years to_year (popularity_stage pr df)) = popularity_stage pr df \<and>
     (list_all (\<lambda>y. y \<noteq> None) (to_year (map release_date (popularity_stage pr df))) \<longrightarrow>
        apply_filters to_year (DataFrame df) pr (Some rng)
          = Inr (DataFrame (kept_by_year to_year rng (popularity_stage pr df))))"
proof (intro conjI impI)
  show "filter_stage to_year (Some \<lparr>popularity_range = pr, year_range = Some rng\<rparr>) df
       = kept_by_year to_year rng (popularity_stage pr df)"
    by (simp add: filter_stage_eq)
next
  show "map fst (with_years to_year (popularity_stage pr df)) = popularity_stage pr df"
    unfolding with_years_def using assms by (simp add: map_fst_zip)
next
  assume all: "list_all (\<lambda>y. y \<noteq> None) (to_year (map release_date (popularity_stage pr df)))"
  have "map snd (with_years to_year (popularity_stage pr df))
          = to_year (map release_date (popularity_stage pr df))"
    unfolding with_years_def using assms by (simp add: map_snd_zip)
  with all have "find (\<lambda>(r, y). y = None) (with_years to_year (popularity_stage pr df)) = None"
    by (simp add: find_pair_None)
  then show "apply_filters to_year (DataFrame df) pr (Some rng)
          = Inr (DataFrame (kept_by_year to_year rng (popularity_stage pr df)))"
    by (simp add: apply_filters_eq)
qed

lemma example_track_fields:
  "release_date (example_track i p d fs) = d"
  "track_id (example_track i p d fs) = i"
  "popularity (example_track i p d fs) = p"
  by (simp_all add: example_track_def)

lemma example_to_year_values:
  "example_to_year ''1999'' = Some 1999"
  "example_to_year ''2001-03-04'' = Some 2001"
  "example_to_year ''2005-07-01'' = Some 2005"
  "example_to_year ''unknown'' = None"
  by (simp_all add: example_to_year_def digit_val_def is_digit_def)

lemma guess_format_values:
  "guess_format ''1999'' = Some Year_Only"
  "guess_format ''2001-03-04'' = Some Year_Month_Day"
  "guess_format ''2005-07-01'' = Some Year_Month_Day"
  "guess_format ''unknown'' = None"
  by (simp_all add: guess_format_def example_to_year_values)

lemma example_columns:
  "example_to_datetime_year [''2001-03-04'', ''2005-07-01'', ''unknown'']
     = [Some 2001, Some 2005, None]"
  "example_to_datetime_year [''2001-03-04'', ''2005-07-01''] = [Some 2001, Some 2005]"
  "example_to_datetime_year [''2005-07-01'', ''unknown''] = [Some 2005, None]"
  "example_to_datetime_year [''2005-07-01'', ''1999''] = [Some 2005, None]"
  "example_to_datetime_year [''unknown'', ''2005-07-01'', ''1999'']
     = [None, Some 2005, Some 1999]"
  by (simp_all add: example_to_datetime_year_def guess_format_values example_to_year_values)

theorem year_filter_keeps_exactly_witness:
  "filter_stage example_to_datetime_year
     (Some \<lparr>popularity_range = Some (20, 100), year_range = Some (2003, 2010)\<rparr>)
     [example_track ''a'' 50 ''2001-03-04'' [], example_track ''b'' 60 ''2005-07-01'' [],
      example_track ''c'' 70 ''unknown'' [], example_track ''d'' 10 ''2005-07-01'' []]
     = [(example_track ''b'' 60 ''2005-07-01'' [])\<lparr>year := Some 2005\<rparr>] \<and>
   apply_filters example_to_datetime_year
     (DataFrame
        [example_track ''a'' 50 ''2001-03-04'' [], example_track ''b'' 60 ''2005-07-01'' [],
         example_track ''d'' 10 ''2005-07-01'' []])
     (Some (20, 100)) (Some (2003, 2010))
     = Inr (DataFrame [(example_track ''b'' 60 ''2005-07-01'' [])\<lparr>year := Some 2005\<rparr>])"
proof -
  let ?a = "example_track ''a'' 50 ''2001-03-04'' []"
  let ?b = "example_track ''b'' 60 ''2005-07-01'' []"
  let ?c = "example_track ''c'' 70 ''unknown'' []"
  let ?d = "example_track ''d'' 10 ''2005-07-01'' []"
  have p1: "popularity_stage (Some (20, 100)) [?a, ?b, ?c, ?d] = [?a, ?b, ?c]"
    by (simp add: popularity_stage_def in_popularity_def example_track_def)
  have p2: "popularity_stage (Some (20, 100)) [?a, ?b, ?d] = [?a, ?b]"
    by (simp add: popularity_stage_def in_popularity_def example_track_def)
  have d1: "map release_date [?a, ?b, ?c] = [''2001-03-04'', ''2005-07-01'', ''unknown'']"
    by (simp add: example_track_def)
  have d2: "map release_date [?a, ?b] = [''2001-03-04'', ''2005-07-01'']"
    by (simp add: example_track_def)
  have k1: "kept_by_year example_to_datetime_year (2003, 2010) [?a, ?b, ?c]
              = [?b\<lparr>year := Some 2005\<rparr>]"
    by (simp add: kept_by_year_def with_years_def example_track_fields example_columns year_in_range_def)
  have k2: "kept_by_year example_to_datetime_year (2003, 2010) [?a, ?b]
              = [?b\<lparr>year := Some 2005\<rparr>]"
    by (simp add: kept_by_year_def with_years_def example_track_fields example_columns year_in_range_def)
  have l1: "length (example_to_datetime_year
              (map release_date (popularity_stage (Some (20, 100)) [?a, ?b, ?c, ?d])))
            = length (popularity_stage (Some (20, 100)) [?a, ?b, ?c, ?d])"
    by (simp add: p1 example_track_fields example_columns)
  have l2: "length (example_to_datetime_year
              (map release_date (popularity_stage (Some (20, 100)) [?a, ?b, ?d])))
            = length (popularity_stage (Some (20, 100)) [?a, ?b, ?d])"
    by (simp add: p2 example_track_fields example_columns)
  have all: "list_all (\<lambda>y. y \<noteq> None)
               (example_to_datetime_year
                  (map release_date (popularity_stage (Some (20, 100)) [?a, ?b, ?d])))"
    by (simp add: p2 example_track_fields example_columns del: not_None_eq)
  have A: "filter_stage example_to_datetime_year
             (Some \<lparr>popularity_range = Some (20, 100), year_range = Some (2003, 2010)\<rparr>)
             [?a, ?b, ?c, ?d] = [?b\<lparr>year := Some 2005\<rparr>]"
    using year_filter_keeps_exactly
      [where to_year = example_to_datetime_year and pr = "Some (20, 100)"
         and df = "[?a, ?b, ?c, ?d]" and rng = "(2003, 2010)", OF l1]
    by (simp add: p1 k1)
  have B: "apply_filters example_to_datetime_year (DataFrame [?a, ?b, ?d])
             (Some (20, 100)) (Some (2003, 2010))
           = Inr (DataFrame [?b\<lparr>year := Some 2005\<rparr>])"
    using year_filter_keeps_exactly
      [where to_year = example_to_datetime_year and pr = "Some (20, 100)"
         and df = "[?a, ?b, ?d]" and rng = "(2003, 2010)", OF l2] all
    by (simp add: p2 k2)
  from A B show ?thesis by (rule conjI)
qed

text \<open>
  The claim as stated fails. On utils.py, one date that does not parse makes
  apply\_filters raise. And where pandas applies the format of the first date to the
  column, a record whose date is a bare year, in range and parseable on its own, is dropped
  by app.py and makes utils.py raise when the first record's date has another precision.
\<close>

theorem year_filter_strict_counterexample:
  "apply_filters example_to_datetime_year
     (DataFrame [example_track ''b'' 60 ''2005-07-01'' [], example_track ''c'' 70 ''unknown'' []])
     None (Some (1990, 2010))
     = Inl (DateParseError ''unknown'') \<and>
   filter_stage example_to_datetime_year
     (Some \<lparr>popularity_range = None, year_range = Some (1990, 2010)\<rparr>)
     [example_track ''b'' 60 ''2005-07-01'' [], example_track ''e'' 70 ''1999'' []]
     = [(example_track ''b'' 60 ''2005-07-01'' [])\<lparr>year := Some 2005\<rparr>] \<and>
   apply_filters example_to_datetime_year
     (DataFrame [example_track ''b'' 60 ''2005-07-01'' [], example_track ''e'' 70 ''1999'' []])
     None (Some (1990, 2010))
     = Inl (DateParseError ''1999'')"
proof -
  let ?b = "example_track ''b'' 60 ''2005-07-01'' []"
  let ?c = "example_track ''c'' 70 ''unknown'' []"
  let ?e = "example_track ''e'' 70 ''1999'' []"
  have d1: "map release_date [?b, ?c] = [''2005-07-01'', ''unknown'']"
    by (simp add: example_track_def)
  have d2: "map release_date [?b, ?e] = [''2005-07-01'', ''1999'']"
    by (simp add: example_track_def)
  have r1: "release_date ?c = ''unknown''" and r2: "release_date ?e = ''1999''"
    by (simp_all add: example_track_def)
  have A: "apply_filters example_to_datetime_year (DataFrame [?b, ?c]) None (Some (1990, 2010))
             = Inl (DateParseError ''unknown'')"
    by (simp add: apply_filters_eq popularity_stage_def with_years_def example_track_fields example_columns)
  have B: "filter_stage example_to_datetime_year
             (Some \<lparr>popularity_range = None, year_range = Some (1990, 2010)\<rparr>) [?b, ?e]
             = [?b\<lparr>year := Some 2005\<rparr>]"
    by (simp add: filter_stage_eq popularity_stage_def kept_by_year_def with_years_def example_track_fields
        example_columns year_in_range_def)
  have C: "apply_filters example_to_datetime_year (DataFrame [?b, ?e]) None (Some (1990, 2010))
             = Inl (DateParseError ''1999'')"
    by (simp add: apply_filters_eq popularity_stage_def with_years_def example_track_fields example_columns)
  from A B C show ?thesis by simp
qed

lemma with_years_rowwise:
  "with_years (rowwise f) df = map (\<lambda>r. (r, f (release_date r))) df"
  unfolding with_years_def rowwise_def by (induction df) simp_all

lemma kept_by_year_rowwise:
  "kept_by_year (rowwise f) rng df
     = map (\<lambda>r. r\<lparr>year := f (release_date r)\<rparr>)
         (filter (\<lambda>r. year_in_range rng (f (release_date r))) df)"
  unfolding kept_by_year_def with_years_rowwise by (induction df) simp_all

lemma release_date_row: "release_date (r\<lparr>year := y\<rparr>) = release_date r"
  by simp

lemma year_twice_row: "r\<lparr>year := y\<rparr>\<lparr>year := y\<rparr> = r\<lparr>year := y\<rparr>"
  by simp

lemma kept_by_year_idem:
  "kept_by_year (rowwise f) rng (kept_by_year (rowwise f) rng df)
     = kept_by_year (rowwise f) rng df"
  unfolding kept_by_year_rowwise by (induction df) simp_all

lemma popularity_stage_kept:
  "popularity_stage pr (kept_by_year (rowwise f) rng df)
     = kept_by_year (rowwise f) rng (popularity_stage pr df)"
proof (cases pr)
  case None
  then show ?thesis by (simp add: popularity_stage_def)
next
  case (Some p)
  have "filter (in_popularity p) (kept_by_year (rowwise f) rng df)
          = kept_by_year (rowwise f) rng (filter (in_popularity p) df)"
    unfolding kept_by_year_rowwise by (induction df) (simp_all add: in_popularity_row)
  with Some show ?thesis by (simp add: popularity_stage_def)
qed

lemma popularity_stage_idem:
  "popularity_stage pr (popularity_stage pr df) = popularity_stage pr df"
  by (cases pr) (simp_all add: popularity_stage_def)

lemma find_kept_None:
  "find (\<lambda>(r, y). y = None) (with_years (rowwise f) (kept_by_year (rowwise f) rng df)) = None"
  unfolding kept_by_year_rowwise with_years_rowwise
  by (induction df) (simp_all add: year_in_range_None)

text \<open>
  C9 (amended). For a date parser that gives each release date a year that does not depend
  on the other rows of the column, applying the filter stage twice with one spec gives
  what applying it once gives: for the inline stage of recommend\_songs (app.py), with or
  without a filter dict, and for apply\_filters (utils.py), where a first application that
  raises leaves nothing to filter again. The year column set by the first application is
  set to the same values by the second.
\<close>

theorem filter_idempotent_rowwise:
  "filter_stage (rowwise f) filters (filter_stage (rowwise f) filters df)
     = filter_stage (rowwise f) filters df \<and>
   and_then (apply_filters (rowwise f) frame pr yr) (\<lambda>d. apply_filters (rowwise f) d pr yr)
     = apply_filters (rowwise f) frame pr yr"
proof
  show "filter_stage (rowwise f) filters (filter_stage (rowwise f) filters df)
     = filter_stage (rowwise f) filters df"
  proof (cases filters)
    case None
    then show ?thesis by (simp add: filter_stage_def)
  next
    case (Some spec)
    then show ?thesis
      by (cases "year_range spec")
         (simp_all add: filter_stage_eq popularity_stage_idem popularity_stage_kept
            kept_by_year_idem)
  qed
next
  show "and_then (apply_filters (rowwise f) frame pr yr) (\<lambda>d. apply_filters (rowwise f) d pr yr)
     = apply_filters (rowwise f) frame pr yr"
  proof (cases frame)
    case Empty_DataFrame
    then show ?thesis
      by (cases pr; cases yr) (simp_all add: apply_filters_def and_then_def)
  next
    case (DataFrame rows)
    show ?thesis
    proof (cases yr)
      case None
      with DataFrame show ?thesis
        by (simp add: apply_filters_eq and_then_def popularity_stage_idem)
    next
      case (Some rng)
      show ?thesis
      proof (cases "find (\<lambda>(r, y). y = None) (with_years (rowwise f) (popularity_stage pr rows))")
        case None
        with Some DataFrame show ?thesis
          by (simp add: apply_filters_eq and_then_def popularity_stage_idem
              popularity_stage_kept kept_by_year_idem find_kept_None)
      next
        case (Some bad)
        obtain r y where "bad = (r, y)" by (cases bad)
        with Some \<open>yr = Some rng\<close> DataFrame show ?thesis
          by (simp add: apply_filters_eq and_then_def)
      qed
    qed
  qed
qed

text \<open>
  The claim as stated fails where pandas applies the format of the first date to the
  whole column. The first pass reads the three dates one by one, because the first of them
  has no format, and drops that one; the second pass reads the two dates left with the
  format of the first of them and drops the bare year.
\<close>

theorem filter_idempotent_counterexample:
  "map track_id
     (filter_stage example_to_datetime_year
        (Some \<lparr>popularity_range = None, year_range = Some (1990, 2010)\<rparr>)
        [example_track ''a'' 50 ''unknown'' [], example_track ''b'' 60 ''2005-07-01'' [],
         example_track ''c'' 70 ''1999'' []])
     = [''b'', ''c''] \<and>
   map track_id
     (filter_stage example_to_datetime_year
        (Some \<lparr>popularity_range = None, year_range = Some (1990, 2010)\<rparr>)
        (filter_stage example_to_datetime_year
           (Some \<lparr>popularity_range = None, year_range = Some (1990, 2010)\<rparr>)
           [example_track ''a'' 50 ''unknown'' [], example_track ''b'' 60 ''2005-07-01'' [],
            example_track ''c'' 70 ''1999'' []]))
     = [''b'']"
proof -
  let ?a = "example_track ''a'' 50 ''unknown'' []"
  let ?b = "example_track ''b'' 60 ''2005-07-01'' []"
  let ?c = "example_track ''c'' 70 ''1999'' []"
  let ?spec = "Some \<lparr>popularity_range = None, year_range = Some (1990, 2010)\<rparr>"
  have once: "filter_stage example_to_datetime_year ?spec [?a, ?b, ?c]
                = [?b\<lparr>year := Some 2005\<rparr>, ?c\<lparr>year := Some 1999\<rparr>]"
    by (simp add: filter_stage_eq popularity_stage_def kept_by_year_def with_years_def
        example_track_fields example_columns year_in_range_def)
  have twice: "filter_stage example_to_datetime_year ?spec
                 [?b\<lparr>year := Some 2005\<rparr>, ?c\<lparr>year := Some 1999\<rparr>]
                = [?b\<lparr>year := Some 2005\<rparr>]"
    by (simp add: filter_stage_eq popularity_stage_def kept_by_year_def with_years_def
        example_track_fields example_columns year_in_range_def)
  show ?thesis
    unfolding once twice by (simp add: example_track_fields)
qed

subsection \<open>Ranking\<close>

lemma insort_desc_mset: "mset (insort_desc key x xs) = add_mset x (mset xs)"
  by (induction xs) simp_all

lemma sort_desc_mset: "mset (sort_desc key xs) = mset xs"
  by (induction xs) (simp_all add: insort_desc_mset)

lemma sort_desc_set: "set (sort_desc key xs) = set xs"
  using sort_desc_mset [of key xs] by (metis set_mset_mset)


lemma insort_desc_set: "set (insort_desc key x xs) = insert x (set xs)"
  using insort_desc_mset [of key x xs] by (metis set_mset_mset set_mset_add_mset_insert)

lemma insort_desc_sorted:
  "sorted_wrt (\<lambda>a b. key b \<le> key a) xs
     \<Longrightarrow> sorted_wrt (\<lambda>a b. key b \<le> key a) (insort_desc key x xs)"
proof (induction xs)
  case Nil
  show ?case by simp
next
  case (Cons y ys)
  show ?case
  proof (cases "key y \<le> key x")
    case True
    with Cons.prems show ?thesis by auto
  next
    case False
    with Cons show ?thesis by (auto simp: insort_desc_set)
  qed
qed

lemma sort_desc_sorted: "sorted_wrt (\<lambda>a b. key b \<le> key a) (sort_desc key xs)"
  by (induction xs) (simp_all add: insort_desc_sorted)









lemma top_recommendations_small:
  assumes "1 \<le> n" and "nat n < length df"
  shows "top_recommendations sort_values n df = take (nat n) (sort_desc similarity_key df)"
proof -
  have "min n (int (length df)) = n" using assms by linarith
  moreover have "\<not> int (length df) \<le> n" using assms by linarith
  ultimately show ?thesis using assms(1) by (simp add: top_recommendations_def nlargest_def)
qed


lemma top_n_small:
  assumes "1 \<le> n" and "nat n < length df" and "list_all (\<lambda>r. similarity r \<noteq> None) df"
  shows "top_n sort_values n df = Inr (take (nat n) (sort_desc similarity_key df))"
proof -
  have "\<not> int (length df) \<le> n" using assms by linarith
  then show ?thesis using assms(1,3) by (simp add: top_n_def nlargest_def)
qed



lemma example_sort_contract: "descending_sort_of key df (example_sort_values key df)"
  by (simp add: descending_sort_of_def example_sort_values_def sort_desc_mset sort_desc_sorted)



subsection \<open>Scaling and cosine similarity\<close>

lemma feature_row_length: "length (feature_row fill cols r) = length cols"
  by (simp add: feature_row_def)

lemma mean_column: "mean (column M j) = col_mean M j"
  by (simp add: mean_def column_def col_mean_def)

lemma variance_column:
  "variance (column M j) = (\<Sum>row\<leftarrow>M. (row ! j - col_mean M j)\<^sup>2) / real (length M)"
  by (simp add: variance_def mean_column) (simp add: mean_def column_def o_def)

lemma scale_column:
  "handle_zeros_in_scale (sqrt (variance (column M j)))
     = (if col_std M j = 0 then 1 else col_std M j)"
  by (simp add: variance_column col_std_def handle_zeros_in_scale_def)

lemma zip3_map_upt:
  "length v = n \<Longrightarrow>
   map (\<lambda>(x, m, s). (x - m) / s) (zip v (zip (map f [0..<n]) (map g [0..<n])))
     = map (\<lambda>j. (v ! j - f j) / g j) [0..<n]"
  by (rule nth_equalityI) simp_all

lemma fit_Inr:
  "M \<noteq> [] \<Longrightarrow> fit M = Inr \<lparr>scaler_mean = map (col_mean M) [0..<n_features M],
       scaler_scale = map (\<lambda>j. if col_std M j = 0 then 1 else col_std M j) [0..<n_features M]\<rparr>"
  by (simp add: fit_def mean_column scale_column)

lemma transform_row_standardized:
  assumes "M \<noteq> []" and "fit M = Inr sc" and "length v = n_features M"
  shows "transform_row sc v = standardized M v"
proof -
  from assms(1,2) have sc: "sc = \<lparr>scaler_mean = map (col_mean M) [0..<n_features M],
       scaler_scale = map (\<lambda>j. if col_std M j = 0 then 1 else col_std M j) [0..<n_features M]\<rparr>"
    by (simp add: fit_Inr)
  show ?thesis
    unfolding transform_row_def standardized_def sc
    using zip3_map_upt [OF assms(3)] by (simp add: assms(3))
qed

lemma sum_list_divide: "(\<Sum>p\<leftarrow>ps. f p / k) = (\<Sum>p\<leftarrow>ps. f p) / (k::real)"
  by (induction ps) (simp_all add: add_divide_distrib)

lemma sum_list_all_zero: "\<forall>p \<in> set ps. f p = (0::real) \<Longrightarrow> (\<Sum>p\<leftarrow>ps. f p) = 0"
  by (induction ps) simp_all

lemma dot_scale: "dot (map (\<lambda>a. a / c) u) (map (\<lambda>b. b / d) v) = dot u v / (c * d)"
proof -
  have "zip (map (\<lambda>a. a / c) u) (map (\<lambda>b. b / d) v)
          = map (\<lambda>p. (fst p / c, snd p / d)) (zip u v)"
    by (simp add: zip_map_map case_prod_unfold)
  then have "dot (map (\<lambda>a. a / c) u) (map (\<lambda>b. b / d) v)
          = (\<Sum>p\<leftarrow>zip u v. (fst p * snd p) / (c * d))"
    by (simp add: dot_def o_def case_prod_unfold)
  also have "\<dots> = (\<Sum>p\<leftarrow>zip u v. fst p * snd p) / (c * d)"
    by (rule sum_list_divide)
  finally show ?thesis by (simp add: dot_def case_prod_unfold)
qed

lemma dot_self_sum: "dot v v = (\<Sum>x\<leftarrow>v. x * x)"
proof -
  have "zip v v = map (\<lambda>x. (x, x)) v" by (induction v) simp_all
  then show ?thesis by (simp add: dot_def o_def)
qed

lemma sum_squares_nonneg: "0 \<le> (\<Sum>x\<leftarrow>v. x * (x::real))"
  by (induction v) simp_all

lemma dot_self_nonneg: "0 \<le> dot v v"
  by (simp add: dot_self_sum sum_squares_nonneg)

lemma sum_squares_zero: "(\<Sum>x\<leftarrow>v. x * (x::real)) = 0 \<Longrightarrow> \<forall>x \<in> set v. x = 0"
proof (induction v)
  case Nil
  show ?case by simp
next
  case (Cons a v)
  have nn: "0 \<le> (\<Sum>x\<leftarrow>v. x * x)" by (rule sum_squares_nonneg)
  have sq: "0 \<le> a * a" by simp
  from Cons.prems have "a * a + (\<Sum>x\<leftarrow>v. x * x) = 0" by simp
  with nn sq have "a * a = 0" and "(\<Sum>x\<leftarrow>v. x * x) = 0" by linarith+
  with Cons.IH show ?case by simp
qed

lemma dot_self_zero: "dot v v = 0 \<Longrightarrow> \<forall>x \<in> set v. x = 0"
  by (simp add: dot_self_sum sum_squares_zero)

lemma dot_zero_left: "\<forall>x \<in> set u. x = 0 \<Longrightarrow> dot u v = 0"
proof -
  assume z: "\<forall>x \<in> set u. x = 0"
  have "\<forall>p \<in> set (zip u v). fst p * snd p = 0"
    using z by (auto dest: set_zip_leftD)
  then have "(\<Sum>p\<leftarrow>zip u v. fst p * snd p) = 0"
    by (rule sum_list_all_zero)
  then show ?thesis by (simp add: dot_def case_prod_unfold)
qed

lemma dot_zero_right: "\<forall>x \<in> set v. x = 0 \<Longrightarrow> dot u v = 0"
proof -
  assume z: "\<forall>x \<in> set v. x = 0"
  have "\<forall>p \<in> set (zip u v). fst p * snd p = 0"
    using z by (auto dest: set_zip_rightD)
  then have "(\<Sum>p\<leftarrow>zip u v. fst p * snd p) = 0"
    by (rule sum_list_all_zero)
  then show ?thesis by (simp add: dot_def case_prod_unfold)
qed

lemma dot_normalized: "dot (normalize_row u) (normalize_row v) = cosine u v"
proof (cases "dot u u = 0 \<or> dot v v = 0")
  case True
  then have "dot u v = 0"
    using dot_zero_left [OF dot_self_zero, of u v] dot_zero_right [OF dot_self_zero, of v u]
    by blast
  with True show ?thesis
    by (simp add: normalize_row_def dot_scale cosine_def)
next
  case False
  then show ?thesis
    by (simp add: normalize_row_def dot_scale cosine_def handle_zeros_in_scale_def)
qed

lemma n_features_Cons: "n_features (row # X) = length row"
  by (simp add: n_features_def)

lemma feature_matrix_rows:
  "row \<in> set (feature_matrix fill cols df) \<Longrightarrow> length row = length cols"
  by (auto simp: feature_matrix_def feature_row_length)

lemma n_features_feature_matrix:
  "df \<noteq> [] \<Longrightarrow> n_features (feature_matrix fill cols df) = length cols"
  by (cases df) (simp_all add: feature_matrix_def n_features_def feature_row_length)

lemma transform_standardized:
  assumes "M \<noteq> []" and "fit M = Inr sc" and "\<forall>row \<in> set X. length row = n_features M"
  shows "transform sc X = map (standardized M) X"
  unfolding transform_def
  using assms(3) transform_row_standardized [OF assms(1,2)] by simp

lemma fit_transform_standardized:
  assumes "M \<noteq> []" and "\<forall>row \<in> set M. length row = n_features M"
  shows "fit_transform M = Inr (map (standardized M) M)"
proof -
  obtain sc where sc: "fit M = Inr sc" using assms(1) by (simp add: fit_def)
  show ?thesis
    unfolding fit_transform_def sc and_then_def
    using transform_standardized [OF assms(1) sc assms(2)] by simp
qed

lemma normalized_features_eq:
  assumes "has_columns cols df"
  shows "normalized_features cols seed df
     = Inr (map (standardized (feature_row 0 cols seed # feature_matrix 0 cols df))
              (feature_row 0 cols seed # feature_matrix 0 cols df))"
proof -
  let ?M = "feature_row 0 cols seed # feature_matrix 0 cols df"
  have rows: "\<forall>row \<in> set ?M. length row = n_features ?M"
    by (auto simp: n_features_Cons feature_row_length feature_matrix_rows)
  have "fit_transform ?M = Inr (map (standardized ?M) ?M)"
    by (rule fit_transform_standardized [OF _ rows]) simp
  then show ?thesis using assms by (simp add: normalized_features_def)
qed

lemma cosine_similarity_row:
  "Y \<noteq> [] \<Longrightarrow> cosine_similarity [x] Y = Inr [map (cosine x) Y]"
  by (simp add: cosine_similarity_def dot_normalized)

lemma similarities_eq:
  assumes "has_columns cols df" and "df \<noteq> []"
  shows "similarities cols seed df
     = Inr (map (\<lambda>x. cosine
                   (standardized (feature_row 0 cols seed # feature_matrix 0 cols df)
                      (feature_row 0 cols seed))
                   (standardized (feature_row 0 cols seed # feature_matrix 0 cols df) x))
              (feature_matrix 0 cols df))"
proof -
  have ne: "feature_matrix 0 cols df \<noteq> []" using assms(2) by (simp add: feature_matrix_def)
  show ?thesis
    unfolding similarities_def normalized_features_eq [OF assms(1)] and_then_def
    using ne by (simp add: cosine_similarity_row o_def)
qed

lemma split_scaling:
  assumes "df \<noteq> []"
  shows "and_then (fit (feature_matrix fill cols df))
           (\<lambda>scaler. Inr (transform scaler [feature_row fill cols seed],
                           transform scaler (feature_matrix fill cols df)))
     = Inr ([standardized (feature_matrix fill cols df) (feature_row fill cols seed)],
            map (standardized (feature_matrix fill cols df)) (feature_matrix fill cols df))"
proof -
  let ?X = "feature_matrix fill cols df"
  have ne: "?X \<noteq> []" using assms by (simp add: feature_matrix_def)
  obtain sc where sc: "fit ?X = Inr sc" using ne by (simp add: fit_def)
  have n: "n_features ?X = length cols" by (rule n_features_feature_matrix [OF assms])
  have a: "transform sc ?X = map (standardized ?X) ?X"
    by (rule transform_standardized [OF ne sc]) (simp add: n feature_matrix_rows)
  have b: "transform sc [feature_row fill cols seed]
             = map (standardized ?X) [feature_row fill cols seed]"
    by (rule transform_standardized [OF ne sc]) (simp add: n feature_row_length)
  show ?thesis
    by (simp add: sc and_then_def a b)
qed

lemma scaled_features_eq:
  assumes "has_columns cols df" and "df \<noteq> []"
  shows "scaled_features cols seed df
     = Inr ([standardized (feature_matrix 0.5 cols df) (feature_row 0.5 cols seed)],
            map (standardized (feature_matrix 0.5 cols df)) (feature_matrix 0.5 cols df))"
  using assms(1) split_scaling [OF assms(2), of "0.5" cols seed]
  by (simp add: scaled_features_def Let_def)

lemma similarities_app_eq:
  assumes "has_columns cols df" and "df \<noteq> []"
  shows "similarities_app cols seed df
     = Inr (map (\<lambda>x. cosine
                   (standardized (feature_matrix 0.5 cols df) (feature_row 0.5 cols seed))
                   (standardized (feature_matrix 0.5 cols df) x))
              (feature_matrix 0.5 cols df))"
proof -
  have ne: "feature_matrix 0.5 cols df \<noteq> []" using assms(2) by (simp add: feature_matrix_def)
  show ?thesis
    unfolding similarities_app_def scaled_features_eq [OF assms] and_then_def
    using ne by (simp add: cosine_similarity_row o_def)
qed

lemma example_feature_row:
  "feature_row fill feature_cols (example_track i p d (example_features a b))
     = [a, b, 0.6, 120, 0.1, 0.1, 0, -5, 0.05]"
  by (simp add: feature_row_def feature_cols_def example_track_def example_features_def
      get_feature_def)

lemma example_has_columns:
  "has_columns feature_cols (example_track i p d (example_features a b) # df)"
  by (simp add: has_columns_def feature_cols_def example_track_def example_features_def
      del: not_None_eq)

lemma sqrt_quarter: "sqrt (1 / 4) = 1 / 2"
  by (simp add: real_sqrt_divide)

lemma upt_9: "[0..<9] = [0, 1, 2, 3, 4, 5, 6, 7, 8]"
  by (simp add: upt_rec)

lemma example_standardized_joint:
  "standardized [[1, 0.5, 0.6, 120, 0.1, 0.1, 0, -5, 0.05], [0, 0.5, 0.6, 120, 0.1, 0.1, 0, -5, 0.05]]
     [1, 0.5, 0.6, 120, 0.1, 0.1, 0, -5, 0.05] = [1, 0, 0, 0, 0, 0, 0, 0, 0]"
  "standardized [[1, 0.5, 0.6, 120, 0.1, 0.1, 0, -5, 0.05], [0, 0.5, 0.6, 120, 0.1, 0.1, 0, -5, 0.05]]
     [0, 0.5, 0.6, 120, 0.1, 0.1, 0, -5, 0.05] = [-1, 0, 0, 0, 0, 0, 0, 0, 0]"
  by (simp_all add: standardized_def upt_9 col_mean_def col_std_def sqrt_quarter power2_eq_square)

lemma example_standardized_split:
  "standardized [[0, 0.5, 0.6, 120, 0.1, 0.1, 0, -5, 0.05]]
     [1, 0.5, 0.6, 120, 0.1, 0.1, 0, -5, 0.05] = [1, 0, 0, 0, 0, 0, 0, 0, 0]"
  "standardized [[0, 0.5, 0.6, 120, 0.1, 0.1, 0, -5, 0.05]]
     [0, 0.5, 0.6, 120, 0.1, 0.1, 0, -5, 0.05] = [0, 0, 0, 0, 0, 0, 0, 0, 0]"
  by (simp_all add: standardized_def upt_9 col_mean_def col_std_def)

lemma example_cosines:
  "cosine [1, 0, 0, 0, 0, 0, 0, 0, 0] [-1, 0, 0, 0, 0, 0, 0, 0, 0] = -1"
  "cosine [1, 0, 0, 0, 0, 0, 0, 0, 0] [0, 0, 0, 0, 0, 0, 0, 0, 0] = 0"
  by (simp_all add: cosine_def dot_def)

text \<open>
  C1 (amended). For a non-empty candidate frame that has the feature columns,
  calculate\_similarity (utils.py) standardizes the seed's row and every candidate's row
  with the column means and standard deviations of the stacked matrix, seed row included,
  and scores each candidate by the cosine of the two standardized rows; recommend\_songs
  (app.py) standardizes the seed's row and every candidate's row with the column means and
  standard deviations of the candidates' rows alone, the seed's row excluded.
\<close>

theorem standardization_fit_rows:
  assumes "has_columns cols df" and "df \<noteq> []"
  shows "normalized_features cols seed df
       = Inr (map (standardized (feature_row 0 cols seed # feature_matrix 0 cols df))
                (feature_row 0 cols seed # feature_matrix 0 cols df)) \<and>
     similarities cols seed df
       = Inr (map (\<lambda>x. cosine
                   (standardized (feature_row 0 cols seed # feature_matrix 0 cols df)
                      (feature_row 0 cols seed))
                   (standardized (feature_row 0 cols seed # feature_matrix 0 cols df) x))
              (feature_matrix 0 cols df)) \<and>
     scaled_features cols seed df
       = Inr ([standardized (feature_matrix 0.5 cols df) (feature_row 0.5 cols seed)],
              map (standardized (feature_matrix 0.5 cols df)) (feature_matrix 0.5 cols df)) \<and>
     similarities_app cols seed df
       = Inr (map (\<lambda>x. cosine
                   (standardized (feature_matrix 0.5 cols df) (feature_row 0.5 cols seed))
                   (standardized (feature_matrix 0.5 cols df) x))
              (feature_matrix 0.5 cols df))"
  using normalized_features_eq [OF assms(1)] similarities_eq [OF assms]
    scaled_features_eq [OF assms] similarities_app_eq [OF assms]
  by simp

theorem standardization_fit_rows_witness:
  "similarities feature_cols (example_track ''s'' 50 ''2020'' (example_features 1 0.5))
     [example_track ''a'' 40 ''2019'' (example_features 0 0.5)] = Inr [-1] \<and>
   similarities_app feature_cols (example_track ''s'' 50 ''2020'' (example_features 1 0.5))
     [example_track ''a'' 40 ''2019'' (example_features 0 0.5)] = Inr [0]"
proof -
  have hc: "has_columns feature_cols [example_track ''a'' 40 ''2019'' (example_features 0 0.5)]"
    by (rule example_has_columns)
  have ne: "[example_track ''a'' 40 ''2019'' (example_features 0 0.5)] \<noteq> []" by simp
  have "similarities feature_cols (example_track ''s'' 50 ''2020'' (example_features 1 0.5))
     [example_track ''a'' 40 ''2019'' (example_features 0 0.5)] = Inr [-1]"
    using standardization_fit_rows [OF hc ne, of "example_track ''s'' 50 ''2020'' (example_features 1 0.5)"]
    by (simp only: feature_matrix_def list.map example_feature_row example_standardized_joint
        example_cosines)
  moreover have "similarities_app feature_cols (example_track ''s'' 50 ''2020'' (example_features 1 0.5))
     [example_track ''a'' 40 ''2019'' (example_features 0 0.5)] = Inr [0]"
    using standardization_fit_rows [OF hc ne, of "example_track ''s'' 50 ''2020'' (example_features 1 0.5)"]
    by (simp only: feature_matrix_def list.map example_feature_row example_standardized_split
        example_cosines)
  ultimately show ?thesis by simp
qed

text \<open>
  The claim as stated fails on app.py: with one candidate that differs from the seed in
  danceability only, recommend\_songs scores the candidate 0, while standardizing over the
  seed and the candidate together gives the score -1.
\<close>

theorem joint_standardization_counterexample:
  "similarities_app feature_cols (example_track ''s'' 50 ''2020'' (example_features 1 0.5))
     [example_track ''a'' 40 ''2019'' (example_features 0 0.5)] = Inr [0] \<and>
   map (\<lambda>x. cosine
          (standardized
             (feature_row 0.5 feature_cols (example_track ''s'' 50 ''2020'' (example_features 1 0.5))
                # feature_matrix 0.5 feature_cols [example_track ''a'' 40 ''2019'' (example_features 0 0.5)])
             (feature_row 0.5 feature_cols (example_track ''s'' 50 ''2020'' (example_features 1 0.5))))
          (standardized
             (feature_row 0.5 feature_cols (example_track ''s'' 50 ''2020'' (example_features 1 0.5))
                # feature_matrix 0.5 feature_cols [example_track ''a'' 40 ''2019'' (example_features 0 0.5)])
             x))
     (feature_matrix 0.5 feature_cols [example_track ''a'' 40 ''2019'' (example_features 0 0.5)])
     = [-1]"
proof -
  have hc: "has_columns feature_cols [example_track ''a'' 40 ''2019'' (example_features 0 0.5)]"
    by (rule example_has_columns)
  have ne: "[example_track ''a'' 40 ''2019'' (example_features 0 0.5)] \<noteq> []" by simp
  show ?thesis
    by (simp only: similarities_app_eq [OF hc ne] feature_matrix_def list.map example_feature_row
        example_standardized_joint example_standardized_split example_cosines simp_thms)
qed

lemma sum_list_const_column:
  "\<forall>row \<in> set M. row ! j = c \<Longrightarrow> (\<Sum>row\<leftarrow>M. row ! j) = real (length M) * (c::real)"
  by (induction M) (simp_all add: algebra_simps)

lemma col_mean_const:
  assumes "M \<noteq> []" and "\<forall>row \<in> set M. row ! j = c"
  shows "col_mean M j = c"
  using assms(1) by (simp add: col_mean_def sum_list_const_column [OF assms(2)])

lemma col_std_const:
  assumes "M \<noteq> []" and "\<forall>row \<in> set M. row ! j = c"
  shows "col_std M j = 0"
proof -
  have "\<forall>row \<in> set M. (row ! j - col_mean M j)\<^sup>2 = 0"
    using assms(2) by (simp add: col_mean_const [OF assms])
  then have "(\<Sum>row\<leftarrow>M. (row ! j - col_mean M j)\<^sup>2) = 0"
    by (rule sum_list_all_zero)
  then show ?thesis by (simp add: col_std_def)
qed

lemma standardized_nth:
  "j < length v \<Longrightarrow>
   standardized M v ! j = (v ! j - col_mean M j) / (if col_std M j = 0 then 1 else col_std M j)"
  by (simp add: standardized_def)

lemma standardized_const:
  assumes "M \<noteq> []" and "\<forall>row \<in> set M. row ! j = c" and "v ! j = c" and "j < length v"
  shows "standardized M v ! j = 0"
  by (simp add: standardized_nth [OF assms(4)] col_mean_const [OF assms(1,2)] assms(3))

lemma fit_scale_const:
  assumes "M \<noteq> []" and "\<forall>row \<in> set M. row ! j = c" and "j < n_features M"
  shows "\<exists>sc. fit M = Inr sc \<and> scaler_scale sc ! j = 1 \<and> scaler_mean sc ! j = c"
  using assms(3)
  by (simp add: fit_Inr [OF assms(1)] col_std_const [OF assms(1,2)] col_mean_const [OF assms(1,2)])

lemma normalize_row_zero: "j < length v \<Longrightarrow> v ! j = 0 \<Longrightarrow> normalize_row v ! j = 0"
  by (simp add: normalize_row_def)

lemma standardized_length: "length (standardized M v) = length v"
  by (simp add: standardized_def)

text \<open>
  C4. When a feature column has one value in the seed's row and in every candidate's row,
  the scaler's scale for that column is 1 (no division by zero), and the standardized
  value of that column is 0 in the seed's row and in every candidate's row, for the joint
  fit of calculate\_similarity (utils.py) and for the candidates-only fit of
  recommend\_songs (app.py); the value stays 0 after the rows are divided by their norms, so
  the column adds nothing to any dot product of the cosine similarity.
\<close>

theorem zero_variance_column:
  assumes "has_columns cols df" and "df \<noteq> []" and "j < length cols"
  shows
    "((\<forall>row \<in> set (feature_matrix 0 cols df). row ! j = feature_row 0 cols seed ! j) \<longrightarrow>
        (\<exists>sc N. fit (feature_row 0 cols seed # feature_matrix 0 cols df) = Inr sc \<and>
                scaler_scale sc ! j = 1 \<and>
                normalized_features cols seed df = Inr N \<and> length N = Suc (length df) \<and>
                (\<forall>row \<in> set N. row ! j = 0 \<and> normalize_row row ! j = 0))) \<and>
     ((\<forall>row \<in> set (feature_matrix 0.5 cols df). row ! j = feature_row 0.5 cols seed ! j) \<longrightarrow>
        (\<exists>sc S D. fit (feature_matrix 0.5 cols df) = Inr sc \<and>
                scaler_scale sc ! j = 1 \<and>
                scaled_features cols seed df = Inr (S, D) \<and> length S = 1 \<and>
                length D = length df \<and>
                (\<forall>row \<in> set (S @ D). row ! j = 0 \<and> normalize_row row ! j = 0)))"
proof (intro conjI impI)
  let ?s = "feature_row 0 cols seed"
  let ?X = "feature_matrix 0 cols df"
  let ?M = "?s # ?X"
  assume c: "\<forall>row \<in> set ?X. row ! j = ?s ! j"
  then have const: "\<forall>row \<in> set ?M. row ! j = ?s ! j" by simp
  have ne: "?M \<noteq> []" by simp
  have len: "\<forall>row \<in> set ?M. length row = length cols"
    by (auto simp: feature_row_length feature_matrix_rows)
  have jn: "j < n_features ?M" using assms(3) by (simp add: n_features_Cons feature_row_length)
  obtain sc where sc: "fit ?M = Inr sc" "scaler_scale sc ! j = 1"
    using fit_scale_const [OF ne const jn] by blast
  have z: "\<forall>row \<in> set (map (standardized ?M) ?M). row ! j = 0 \<and> normalize_row row ! j = 0"
  proof
    fix row
    assume "row \<in> set (map (standardized ?M) ?M)"
    then obtain v where v: "v \<in> set ?M" and row: "row = standardized ?M v" by auto
    from v len assms(3) have jv: "j < length v" by auto
    from v const have "v ! j = ?s ! j" by blast
    then have "row ! j = 0"
      unfolding row by (rule standardized_const [OF ne const _ jv])
    moreover have "j < length row" using jv by (simp add: row standardized_length)
    ultimately show "row ! j = 0 \<and> normalize_row row ! j = 0"
      by (simp add: normalize_row_zero)
  qed
  have "length (map (standardized ?M) ?M) = Suc (length df)"
    by (simp add: feature_matrix_def)
  with sc z normalized_features_eq [OF assms(1), of seed]
  show "\<exists>sc N. fit ?M = Inr sc \<and> scaler_scale sc ! j = 1 \<and>
           normalized_features cols seed df = Inr N \<and> length N = Suc (length df) \<and>
           (\<forall>row \<in> set N. row ! j = 0 \<and> normalize_row row ! j = 0)"
    by blast
next
  let ?s = "feature_row 0.5 cols seed"
  let ?X = "feature_matrix 0.5 cols df"
  assume const: "\<forall>row \<in> set ?X. row ! j = ?s ! j"
  have ne: "?X \<noteq> []" using assms(2) by (simp add: feature_matrix_def)
  have len: "\<forall>row \<in> set (?s # ?X). length row = length cols"
    by (auto simp: feature_row_length feature_matrix_rows)
  have jn: "j < n_features ?X"
    using assms(3) by (simp add: n_features_feature_matrix [OF assms(2)])
  obtain sc where sc: "fit ?X = Inr sc" "scaler_scale sc ! j = 1"
    using fit_scale_const [OF ne const jn] by blast
  have z: "\<forall>row \<in> set ([standardized ?X ?s] @ map (standardized ?X) ?X).
             row ! j = 0 \<and> normalize_row row ! j = 0"
  proof
    fix row
    assume "row \<in> set ([standardized ?X ?s] @ map (standardized ?X) ?X)"
    then obtain v where v: "v \<in> set (?s # ?X)" and row: "row = standardized ?X v" by auto
    from v len assms(3) have jv: "j < length v" by auto
    from v const have "v ! j = ?s ! j" by auto
    then have "row ! j = 0"
      unfolding row by (rule standardized_const [OF ne const _ jv])
    moreover have "j < length row" using jv by (simp add: row standardized_length)
    ultimately show "row ! j = 0 \<and> normalize_row row ! j = 0"
      by (simp add: normalize_row_zero)
  qed
  have l: "length [standardized ?X ?s] = 1" "length (map (standardized ?X) ?X) = length df"
    by (simp_all add: feature_matrix_def)
  from sc z l scaled_features_eq [OF assms(1,2), of seed]
  show "\<exists>sc S D. fit ?X = Inr sc \<and> scaler_scale sc ! j = 1 \<and>
           scaled_features cols seed df = Inr (S, D) \<and> length S = 1 \<and> length D = length df \<and>
           (\<forall>row \<in> set (S @ D). row ! j = 0 \<and> normalize_row row ! j = 0)"
    by blast
qed

theorem zero_variance_column_witness:
  "(\<exists>sc N. fit (feature_row 0 feature_cols (example_track ''s'' 50 ''2020'' (example_features 1 0.5))
                 # feature_matrix 0 feature_cols [example_track ''a'' 40 ''2019'' (example_features 0 0.5)])
              = Inr sc \<and>
            scaler_scale sc ! 1 = 1 \<and>
            normalized_features feature_cols (example_track ''s'' 50 ''2020'' (example_features 1 0.5))
              [example_track ''a'' 40 ''2019'' (example_features 0 0.5)] = Inr N \<and>
            length N = 2 \<and> list_all (\<lambda>row. row ! 1 = 0) N) \<and>
   (\<exists>sc S D. fit (feature_matrix 0.5 feature_cols [example_track ''a'' 40 ''2019'' (example_features 0 0.5)])
              = Inr sc \<and>
            scaler_scale sc ! 1 = 1 \<and>
            scaled_features feature_cols (example_track ''s'' 50 ''2020'' (example_features 1 0.5))
              [example_track ''a'' 40 ''2019'' (example_features 0 0.5)] = Inr (S, D) \<and>
            length S = 1 \<and> length D = 1 \<and> list_all (\<lambda>row. row ! 1 = 0) (S @ D))"
proof -
  let ?seed = "example_track ''s'' 50 ''2020'' (example_features 1 0.5)"
  let ?df = "[example_track ''a'' 40 ''2019'' (example_features 0 0.5)]"
  have hc: "has_columns feature_cols ?df" by (rule example_has_columns)
  have ne: "?df \<noteq> []" by simp
  have j: "1 < length feature_cols" by (simp add: feature_cols_def)
  have h0: "\<forall>row \<in> set (feature_matrix 0 feature_cols ?df).
              row ! 1 = feature_row 0 feature_cols ?seed ! 1"
    by (simp add: feature_matrix_def example_feature_row)
  have h5: "\<forall>row \<in> set (feature_matrix 0.5 feature_cols ?df).
              row ! 1 = feature_row 0.5 feature_cols ?seed ! 1"
    by (simp add: feature_matrix_def example_feature_row)
  note t = zero_variance_column [OF hc ne j, of ?seed]
  from t h0 obtain sc N where a:
    "fit (feature_row 0 feature_cols ?seed # feature_matrix 0 feature_cols ?df) = Inr sc"
    "scaler_scale sc ! 1 = 1"
    "normalized_features feature_cols ?seed ?df = Inr N"
    "length N = Suc (length ?df)"
    "\<forall>row \<in> set N. row ! 1 = 0 \<and> normalize_row row ! 1 = 0"
    by blast
  from t h5 obtain sc' S D where b:
    "fit (feature_matrix 0.5 feature_cols ?df) = Inr sc'"
    "scaler_scale sc' ! 1 = 1"
    "scaled_features feature_cols ?seed ?df = Inr (S, D)"
    "length S = 1" "length D = length ?df"
    "\<forall>row \<in> set (S @ D). row ! 1 = 0 \<and> normalize_row row ! 1 = 0"
    by blast
  have A: "\<exists>sc N. fit (feature_row 0 feature_cols ?seed # feature_matrix 0 feature_cols ?df) = Inr sc \<and>
            scaler_scale sc ! 1 = 1 \<and> normalized_features feature_cols ?seed ?df = Inr N \<and>
            length N = 2 \<and> list_all (\<lambda>row. row ! 1 = 0) N"
    by (rule exI [of _ sc], rule exI [of _ N]) (use a in \<open>simp add: list_all_iff\<close>)
  have B: "\<exists>sc S D. fit (feature_matrix 0.5 feature_cols ?df) = Inr sc \<and>
            scaler_scale sc ! 1 = 1 \<and> scaled_features feature_cols ?seed ?df = Inr (S, D) \<and>
            length S = 1 \<and> length D = 1 \<and> list_all (\<lambda>row. row ! 1 = 0) (S @ D)"
    by (rule exI [of _ sc'], rule exI [of _ S], rule exI [of _ D])
       (use b in \<open>simp add: list_all_iff\<close>)
  from A B show ?thesis by (rule conjI)
qed

subsection \<open>The frame returned by calculate\_similarity\<close>

lemma similarities_Inr:
  assumes "similarities cols seed df = Inr sims"
  shows "has_columns cols df \<and> df \<noteq> [] \<and> length sims = length df"
proof -
  have hc: "has_columns cols df"
  proof (rule ccontr)
    assume "\<not> has_columns cols df"
    then have "similarities cols seed df = Inl (KeyError ''feature_columns'')"
      by (simp add: similarities_def normalized_features_def and_then_def)
    with assms show False by simp
  qed
  have ne: "df \<noteq> []"
  proof
    assume "df = []"
    then have "similarities cols seed df = Inl (ValueError ''Found array with 0 sample(s)'')"
      unfolding similarities_def normalized_features_eq [OF hc] and_then_def
      by (simp add: feature_matrix_def cosine_similarity_def)
    with assms show False by simp
  qed
  from assms have "length sims = length df"
    unfolding similarities_eq [OF hc ne] by (auto simp: feature_matrix_def)
  with hc ne show ?thesis by simp
qed

lemma assign_similarity_nth:
  "length sims = length df \<Longrightarrow> i < length df
     \<Longrightarrow> assign_similarity df sims ! i = (df ! i)\<lparr>similarity := Some (sims ! i)\<rparr>"
  by (simp add: assign_similarity_def)

lemma assign_similarity_length:
  "length sims = length df \<Longrightarrow> length (assign_similarity df sims) = length df"
  by (simp add: assign_similarity_def)

text \<open>
  C10. When the similarity computation succeeds on the candidate frame, calculate\_similarity
  returns a new frame: every frame that existed before the call, the candidate frame among
  them, is unchanged; the new frame has the rows of the candidate frame, in the same order,
  and each of its rows is the candidate's row with only the similarity column set.
\<close>

theorem calculate_similarity_frame:
  assumes "candidate_df < length heap"
    and "similarities cols seed_features (heap ! candidate_df) = Inr sims"
  shows "\<exists>result_df heap'.
      calculate_similarity cols seed_features candidate_df heap = (result_df, heap') \<and>
      result_df \<noteq> candidate_df \<and> result_df < length heap' \<and>
      (\<forall>a < length heap. heap' ! a = heap ! a) \<and>
      heap' ! candidate_df = heap ! candidate_df \<and>
      length sims = length (heap ! candidate_df) \<and>
      length (heap' ! result_df) = length (heap ! candidate_df) \<and>
      (\<forall>i < length (heap ! candidate_df).
         heap' ! result_df ! i = (heap ! candidate_df ! i)\<lparr>similarity := Some (sims ! i)\<rparr>)"
proof -
  let ?df = "heap ! candidate_df"
  let ?heap' = "heap @ [assign_similarity ?df sims]"
  have len: "length sims = length ?df"
    using similarities_Inr [OF assms(2)] by simp
  have eq: "calculate_similarity cols seed_features candidate_df heap = (length heap, ?heap')"
    by (simp add: calculate_similarity_def assms(2))
  have old: "\<forall>a < length heap. ?heap' ! a = heap ! a"
    by (simp add: nth_append)
  have new: "?heap' ! length heap = assign_similarity ?df sims"
    by simp
  have rows: "\<forall>i < length ?df.
      ?heap' ! length heap ! i = (?df ! i)\<lparr>similarity := Some (sims ! i)\<rparr>"
    unfolding new using len by (simp add: assign_similarity_nth)
  have l: "length (?heap' ! length heap) = length ?df"
    unfolding new by (rule assign_similarity_length [OF len])
  from assms(1) have ne: "length heap \<noteq> candidate_df" by simp
  from old assms(1) have same: "?heap' ! candidate_df = ?df" by blast
  show ?thesis
    by (intro exI [of _ "length heap"] exI [of _ ?heap'] conjI)
       (use eq ne old same len l rows in simp_all)
qed

lemma example_similarities:
  "similarities feature_cols (example_track ''s'' 50 ''2020'' (example_features 1 0.5))
     [example_track ''a'' 40 ''2019'' (example_features 0 0.5)] = Inr [- 1]"
proof -
  have hc: "has_columns feature_cols [example_track ''a'' 40 ''2019'' (example_features 0 0.5)]"
    by (rule example_has_columns)
  have ne: "[example_track ''a'' 40 ''2019'' (example_features 0 0.5)] \<noteq> []" by simp
  show ?thesis
    by (simp only: similarities_eq [OF hc ne] feature_matrix_def list.map example_feature_row
        example_standardized_joint example_cosines)
qed

lemma singleton_nth: "length xs = 1 \<Longrightarrow> xs = [xs ! 0]"
  by (cases xs) simp_all

theorem calculate_similarity_frame_witness:
  "fst (calculate_similarity feature_cols
          (example_track ''s'' 50 ''2020'' (example_features 1 0.5)) 0
          [[example_track ''a'' 40 ''2019'' (example_features 0 0.5)]]) \<noteq> 0 \<and>
   snd (calculate_similarity feature_cols
          (example_track ''s'' 50 ''2020'' (example_features 1 0.5)) 0
          [[example_track ''a'' 40 ''2019'' (example_features 0 0.5)]]) ! 0
     = [example_track ''a'' 40 ''2019'' (example_features 0 0.5)] \<and>
   snd (calculate_similarity feature_cols
          (example_track ''s'' 50 ''2020'' (example_features 1 0.5)) 0
          [[example_track ''a'' 40 ''2019'' (example_features 0 0.5)]])
     ! fst (calculate_similarity feature_cols
          (example_track ''s'' 50 ''2020'' (example_features 1 0.5)) 0
          [[example_track ''a'' 40 ''2019'' (example_features 0 0.5)]])
     = [(example_track ''a'' 40 ''2019'' (example_features 0 0.5))\<lparr>similarity := Some (- 1)\<rparr>]"
proof -
  let ?seed = "example_track ''s'' 50 ''2020'' (example_features 1 0.5)"
  let ?a = "example_track ''a'' 40 ''2019'' (example_features 0 0.5)"
  have lt: "0 < length [[?a]]" by simp
  have sims: "similarities feature_cols ?seed ([[?a]] ! 0) = Inr [- 1]"
    using example_similarities by simp
  from calculate_similarity_frame [OF lt sims]
  obtain result_df heap' where r:
    "calculate_similarity feature_cols ?seed 0 [[?a]] = (result_df, heap')"
    "result_df \<noteq> 0"
    "heap' ! 0 = [[?a]] ! 0"
    "length (heap' ! result_df) = length ([[?a]] ! 0)"
    "\<forall>i < length ([[?a]] ! 0).
       heap' ! result_df ! i = ([[?a]] ! 0 ! i)\<lparr>similarity := Some ([- 1] ! i)\<rparr>"
    by blast
  from r(4) have "heap' ! result_df = [heap' ! result_df ! 0]"
    by (intro singleton_nth) simp
  moreover from r(5) have "heap' ! result_df ! 0 = ?a\<lparr>similarity := Some (- 1)\<rparr>"
    by simp
  ultimately have "heap' ! result_df = [?a\<lparr>similarity := Some (- 1)\<rparr>]" by simp
  with r(1,2,3) show ?thesis by simp
qed


subsection \<open>Normalisation\<close>

lemma item_Some: "item key (Some x) = Inr x"
  by (simp add: item_def)

lemma and_then_Inr: "and_then (Inr x) f = f x"
  by (simp add: and_then_def)

lemma and_then_Inl: "and_then (Inl e) f = Inl e"
  by (simp add: and_then_def)

lemma items_all:
  "list_all (\<lambda>x. f x \<noteq> None) xs \<Longrightarrow> items key f xs = Inr (map (\<lambda>x. the (f x)) xs)"
proof (induction xs)
  case Nil
  show ?case by simp
next
  case (Cons x xs)
  then obtain y where "f x = Some y" by auto
  with Cons show ?case by (simp add: item_Some and_then_Inr)
qed

lemma items_missing:
  "\<not> list_all (\<lambda>x. f x \<noteq> None) xs \<Longrightarrow> \<exists>e. items key f xs = Inl e"
proof (induction xs)
  case Nil
  then show ?case by simp
next
  case (Cons x xs)
  show ?case
  proof (cases "f x")
    case None
    then show ?thesis by (simp add: item_def and_then_Inl)
  next
    case (Some y)
    with Cons.prems have "\<not> list_all (\<lambda>x. f x \<noteq> None) xs" by simp
    then obtain e where "items key f xs = Inl e" using Cons.IH by blast
    with Some show ?thesis by (simp add: item_Some and_then_Inr and_then_Inl)
  qed
qed

lemma track_metadata_ok:
  assumes "has_required_metadata t"
  shows "\<exists>m. track_metadata t = Inr m \<and> track_id m = the (t_id t) \<and> name m = the (t_name t) \<and>
           popularity m = the (t_popularity t) \<and> duration_ms m = the (t_duration_ms t) \<and>
           preview_url m = the (t_preview_url t) \<and>
           release_date m = the (album_release_date (the (t_album t))) \<and>
           album m = the (album_name (the (t_album t))) \<and> features m = []"
proof -
  from assms obtain i n arts alb pv pop dur urls where f:
    "t_id t = Some i" "t_name t = Some n" "t_artists t = Some arts" "t_album t = Some alb"
    "t_preview_url t = Some pv" "t_popularity t = Some pop" "t_duration_ms t = Some dur"
    "t_external_urls t = Some urls"
    by (auto simp: has_required_metadata_def split: option.splits)
  from assms f have arts: "list_all (\<lambda>a. artist_name a \<noteq> None) arts"
    by (simp add: has_required_metadata_def list_all_iff del: not_None_eq)
  from assms f obtain an ad imgs ext where g:
    "album_name alb = Some an" "album_release_date alb = Some ad"
    "album_images alb = Some imgs" "map_of urls ''spotify'' = Some ext"
    by (auto simp: has_required_metadata_def split: option.splits)
  have img: "\<exists>u. (case imgs of [] \<Rightarrow> Inr None
               | img # rest \<Rightarrow> and_then (item ''url'' (image_link img)) (\<lambda>u. Inr (Some u)))
             = (Inr u :: py_error + string option)"
  proof (cases imgs)
    case Nil
    then show ?thesis by simp
  next
    case (Cons img rest)
    with assms f g obtain u where "image_link img = Some u"
      by (auto simp: has_required_metadata_def)
    with Cons show ?thesis by (simp add: item_Some and_then_Inr)
  qed
  then obtain u where u: "(case imgs of [] \<Rightarrow> Inr None
               | img # rest \<Rightarrow> and_then (item ''url'' (image_link img)) (\<lambda>u. Inr (Some u)))
             = (Inr u :: py_error + string option)" by blast
  show ?thesis
    unfolding track_metadata_def f g items_all [OF arts] item_Some and_then_Inr u
    by (simp add: g)
qed

lemma map_filter_no_key:
  assumes "\<And>kd y. g kd = Some y \<Longrightarrow> fst y = fst kd" and "k \<notin> fst ` set kds"
  shows "map_of (List.map_filter g kds) k = None"
  using assms(2)
proof (induction kds)
  case Nil
  show ?case by (simp add: map_filter_simps)
next
  case (Cons kd kds)
  show ?case
  proof (cases "g kd")
    case None
    with Cons show ?thesis by (simp add: map_filter_simps)
  next
    case (Some y)
    with assms(1) have "fst y = fst kd" by blast
    with Cons Some show ?thesis by (cases y) (simp add: map_filter_simps)
  qed
qed

lemma map_of_map_filter:
  assumes "\<And>kd y. g kd = Some y \<Longrightarrow> fst y = fst kd"
    and "distinct (map fst kds)" and "kd \<in> set kds"
  shows "map_of (List.map_filter g kds) (fst kd) = map_option snd (g kd)"
  using assms(2,3)
proof (induction kds)
  case Nil
  then show ?case by simp
next
  case (Cons x kds)
  show ?case
  proof (cases "x = kd")
    case True
    from Cons.prems have nk: "fst kd \<notin> fst ` set kds" using True by auto
    show ?thesis
    proof (cases "g kd")
      case None
      with True show ?thesis
        by (simp add: map_filter_simps map_filter_no_key [OF assms(1) nk])
    next
      case (Some y)
      with assms(1) have "fst y = fst kd" by blast
      with Some True show ?thesis by (cases y) (simp add: map_filter_simps)
    qed
  next
    case False
    with Cons.prems have mem: "kd \<in> set kds" and d: "distinct (map fst kds)" by auto
    from Cons.prems mem have ne: "fst x \<noteq> fst kd" by force
    show ?thesis
    proof (cases "g x")
      case None
      with Cons.IH [OF d mem] show ?thesis by (simp add: map_filter_simps)
    next
      case (Some y)
      with assms(1) have "fst y = fst x" by blast
      with Some ne Cons.IH [OF d mem] show ?thesis by (cases y) (simp add: map_filter_simps)
    qed
  qed
qed

lemma feature_defaults_distinct: "distinct (map fst feature_defaults)"
  by (simp add: feature_defaults_def)

lemma get_or_default_key: "get_or_default af kd = Some y \<Longrightarrow> fst y = fst kd"
  by (cases kd) (auto simp: get_or_default_def split: option.splits)

lemma features_with_defaults_lookup:
  assumes "kd \<in> set feature_defaults"
  shows "map_of (features_with_defaults af) (fst kd)
     = (case map_of af (fst kd) of
          None \<Rightarrow> Some (snd kd)
        | Some None \<Rightarrow> None
        | Some (Some v) \<Rightarrow> Some v)"
proof -
  have "map_of (features_with_defaults af) (fst kd) = map_option snd (get_or_default af kd)"
    unfolding features_with_defaults_def
    by (rule map_of_map_filter [OF get_or_default_key feature_defaults_distinct assms])
  then show ?thesis
    by (simp add: get_or_default_def split: option.splits)
qed


lemma get_track_details_ok:
  assumes "has_required_metadata t"
  shows "\<exists>m. track_metadata t = Inr m \<and>
     get_track_details sp t
       = (Some (m\<lparr>artist_ids := Some (map (\<lambda>a. the (artist_id a)) (the (t_artists t))),
                  features := features_with_defaults (get_audio_features sp (the (t_id t)))\<rparr>),
          None)"
proof -
  from track_metadata_ok [OF assms] obtain m where m: "track_metadata t = Inr m" by blast
  from assms obtain i arts where f: "t_id t = Some i" "t_artists t = Some arts"
    by (auto simp: has_required_metadata_def split: option.splits)
  from assms f have ids: "list_all (\<lambda>a. artist_id a \<noteq> None) arts"
    by (simp add: has_required_metadata_def list_all_iff del: not_None_eq)
  have "get_track_details sp t
       = (Some (m\<lparr>artist_ids := Some (map (\<lambda>a. the (artist_id a)) arts),
                  features := features_with_defaults (get_audio_features sp i)\<rparr>), None)"
    unfolding get_track_details_def f m items_all [OF ids] item_Some and_then_Inr Let_def
    by simp
  with m f show ?thesis by simp
qed

lemma extract_track_info_no_features:
  assumes "has_required_metadata t"
    and "processor_audio_features sp (the (t_id t)) = None
         \<or> processor_audio_features sp (the (t_id t)) = Some []"
  shows "\<exists>m. track_metadata t = Inr m \<and> extract_track_info sp t = Some m"
proof -
  from track_metadata_ok [OF assms(1)] obtain m where m: "track_metadata t = Inr m" by blast
  from assms(1) obtain i where f: "t_id t = Some i"
    by (auto simp: has_required_metadata_def)
  from assms(2) f have "extract_track_info sp t = Some m"
    unfolding extract_track_info_def f m item_Some and_then_Inr Let_def by auto
  with m show ?thesis by simp
qed

lemma copied_features_missing:
  assumes "\<not> list_all (\<lambda>kd. map_of af (fst kd) \<noteq> None) feature_defaults"
  shows "\<exists>e. copied_features af = Inl e"
proof -
  from items_missing [OF assms, of "''feature''"]
  obtain e where "items ''feature'' (\<lambda>kd. map_of af (fst kd)) feature_defaults = Inl e"
    by blast
  then show ?thesis by (simp add: copied_features_def and_then_Inl)
qed

lemma extract_track_info_missing_key:
  assumes "has_required_metadata t"
    and "processor_audio_features sp (the (t_id t)) = Some af" and "af \<noteq> []"
    and "\<not> list_all (\<lambda>kd. map_of af (fst kd) \<noteq> None) feature_defaults"
  shows "extract_track_info sp t = None"
proof -
  from track_metadata_ok [OF assms(1)] obtain m where m: "track_metadata t = Inr m" by blast
  from assms(1) obtain i where f: "t_id t = Some i"
    by (auto simp: has_required_metadata_def)
  from copied_features_missing [OF assms(4)] obtain e where e: "copied_features af = Inl e"
    by blast
  from assms(2,3) f show ?thesis
    unfolding extract_track_info_def f m item_Some and_then_Inr Let_def
    by (simp add: e and_then_Inl)
qed

text \<open>
  C2 (amended). For every raw track that contains the required metadata and every
  behaviour of the client, get\_track\_details (app.py) succeeds and returns a record with
  the track's metadata in which each of the eleven features has the value of the
  audio-features object, or its default when the object has no such key, the whole lookup
  having failed included (0.5 for danceability, energy, valence, acousticness, liveness,
  instrumentalness and speechiness, 120 for tempo, -10 for loudness, 0 for key, 1 for
  mode); a feature that the object holds as null stays null. extract\_track\_info
  (utils.py) never raises; when the lookup fails or gives an empty object it returns the
  metadata with no feature field at all, and when the object it gets lacks one of the
  eleven keys it returns nothing.
\<close>

theorem normalization_defaults:
  assumes "has_required_metadata t"
  shows "\<exists>details.
      get_track_details sp t = (Some details, None) \<and>
      track_id details = the (t_id t) \<and> name details = the (t_name t) \<and>
      popularity details = the (t_popularity t) \<and>
      release_date details = the (album_release_date (the (t_album t))) \<and>
      (\<forall>kd \<in> set feature_defaults.
         map_of (features details) (fst kd)
           = (case map_of (get_audio_features sp (the (t_id t))) (fst kd) of
                None \<Rightarrow> Some (snd kd)
              | Some None \<Rightarrow> None
              | Some (Some v) \<Rightarrow> Some v)) \<and>
      (processor_audio_features sp (the (t_id t)) = None
         \<or> processor_audio_features sp (the (t_id t)) = Some [] \<longrightarrow>
       (\<exists>info. extract_track_info sp t = Some info \<and> track_id info = the (t_id t) \<and>
               features info = [])) \<and>
      (\<forall>af. processor_audio_features sp (the (t_id t)) = Some af \<and> af \<noteq> [] \<and>
            \<not> list_all (\<lambda>kd. map_of af (fst kd) \<noteq> None) feature_defaults \<longrightarrow>
            extract_track_info sp t = None)"
proof -
  from track_metadata_ok [OF assms] obtain m where m:
    "track_metadata t = Inr m" "track_id m = the (t_id t)" "name m = the (t_name t)"
    "popularity m = the (t_popularity t)"
    "release_date m = the (album_release_date (the (t_album t)))" "features m = []"
    by blast
  let ?d = "m\<lparr>artist_ids := Some (map (\<lambda>a. the (artist_id a)) (the (t_artists t))),
               features := features_with_defaults (get_audio_features sp (the (t_id t)))\<rparr>"
  have d: "get_track_details sp t = (Some ?d, None)"
    using get_track_details_ok [OF assms, of sp] m(1) by simp
  have feats: "\<forall>kd \<in> set feature_defaults.
         map_of (features ?d) (fst kd)
           = (case map_of (get_audio_features sp (the (t_id t))) (fst kd) of
                None \<Rightarrow> Some (snd kd)
              | Some None \<Rightarrow> None
              | Some (Some v) \<Rightarrow> Some v)"
    by (simp add: features_with_defaults_lookup)
  have u1: "processor_audio_features sp (the (t_id t)) = None
         \<or> processor_audio_features sp (the (t_id t)) = Some [] \<longrightarrow>
       (\<exists>info. extract_track_info sp t = Some info \<and> track_id info = the (t_id t) \<and>
               features info = [])"
  proof
    assume "processor_audio_features sp (the (t_id t)) = None
         \<or> processor_audio_features sp (the (t_id t)) = Some []"
    from extract_track_info_no_features [OF assms this] m
    show "\<exists>info. extract_track_info sp t = Some info \<and> track_id info = the (t_id t) \<and>
               features info = []"
      by auto
  qed
  have u2: "\<forall>af. processor_audio_features sp (the (t_id t)) = Some af \<and> af \<noteq> [] \<and>
            \<not> list_all (\<lambda>kd. map_of af (fst kd) \<noteq> None) feature_defaults \<longrightarrow>
            extract_track_info sp t = None"
    using extract_track_info_missing_key [OF assms] by blast
  show ?thesis
    by (rule exI [of _ ?d]) (use d m feats u1 u2 in simp)
qed


lemma example_raw_track_ok: "has_required_metadata (example_raw_track i)"
  by (simp add: has_required_metadata_def example_raw_track_def)

lemma example_raw_track_id: "t_id (example_raw_track i) = Some i"
  by (simp add: example_raw_track_def)

lemma example_client_lookup:
  "get_audio_features (example_client (Raises e)) i = []"
  "get_audio_features (example_client (Returns (Some [Some af]))) i = af"
  "processor_audio_features (example_client (Raises e)) i = None"
  "processor_audio_features (example_client (Returns (Some [Some af]))) i = Some af"
  by (simp_all add: get_audio_features_def processor_audio_features_def example_client_def)

theorem normalization_defaults_witness:
  "snd (get_track_details
          (example_client (Returns (Some [Some [(''tempo'', Some 98), (''energy'', None)]])))
          (example_raw_track ''t1'')) = None \<and>
   map_option (\<lambda>d. (track_id d, map_of (features d) ''tempo'', map_of (features d) ''energy'',
                     map_of (features d) ''danceability'', map_of (features d) ''loudness'',
                     map_of (features d) ''key'', map_of (features d) ''mode''))
     (fst (get_track_details
             (example_client (Returns (Some [Some [(''tempo'', Some 98), (''energy'', None)]])))
             (example_raw_track ''t1'')))
     = Some (''t1'', Some 98, None, Some 0.5, Some (- 10), Some 0, Some 1)"
proof -
  let ?sp = "example_client (Returns (Some [Some [(''tempo'', Some 98), (''energy'', None)]]))"
  let ?t = "example_raw_track ''t1''"
  from normalization_defaults [where t = ?t and sp = ?sp, OF example_raw_track_ok]
  obtain details where d:
    "get_track_details ?sp ?t = (Some details, None)"
    "track_id details = the (t_id ?t)"
    "\<forall>kd \<in> set feature_defaults.
         map_of (features details) (fst kd)
           = (case map_of (get_audio_features ?sp (the (t_id ?t))) (fst kd) of
                None \<Rightarrow> Some (snd kd)
              | Some None \<Rightarrow> None
              | Some (Some v) \<Rightarrow> Some v)"
    by blast
  have af: "get_audio_features ?sp (the (t_id ?t)) = [(''tempo'', Some 98), (''energy'', None)]"
    by (simp add: example_client_lookup example_raw_track_id)
  have k: "(''tempo'', 120) \<in> set feature_defaults" "(''energy'', 0.5) \<in> set feature_defaults"
    "(''danceability'', 0.5) \<in> set feature_defaults" "(''loudness'', - 10) \<in> set feature_defaults"
    "(''key'', 0) \<in> set feature_defaults" "(''mode'', 1) \<in> set feature_defaults"
    by (simp_all add: feature_defaults_def)
  have "map_of (features details) ''tempo'' = Some 98"
    using d(3) k(1) unfolding af by fastforce
  moreover have "map_of (features details) ''energy'' = None"
    using d(3) k(2) unfolding af by fastforce
  moreover have "map_of (features details) ''danceability'' = Some 0.5"
    using d(3) k(3) unfolding af by fastforce
  moreover have "map_of (features details) ''loudness'' = Some (- 10)"
    using d(3) k(4) unfolding af by fastforce
  moreover have "map_of (features details) ''key'' = Some 0"
    using d(3) k(5) unfolding af by fastforce
  moreover have "map_of (features details) ''mode'' = Some 1"
    using d(3) k(6) unfolding af by fastforce
  ultimately show ?thesis
    using d(1,2) by (simp add: example_raw_track_id)
qed

text \<open>
  The claim as stated fails on utils.py: when the feature lookup raises,
  extract\_track\_info returns the metadata with no feature field, and when the
  audio-features object lacks a feature, it returns no record at all.
\<close>

theorem normalization_defaults_counterexample:
  "map_option features
     (extract_track_info (example_client (Raises ''timeout'')) (example_raw_track ''t1''))
     = Some [] \<and>
   extract_track_info (example_client (Returns (Some [Some [(''tempo'', Some 98)]])))
     (example_raw_track ''t1'')
     = None"
proof
  let ?t = "example_raw_track ''t1''"
  have "processor_audio_features (example_client (Raises ''timeout'')) (the (t_id ?t)) = None
        \<or> processor_audio_features (example_client (Raises ''timeout'')) (the (t_id ?t)) = Some []"
    by (simp add: example_client_lookup)
  from extract_track_info_no_features [OF example_raw_track_ok this]
  obtain m where m: "track_metadata ?t = Inr m"
    "extract_track_info (example_client (Raises ''timeout'')) ?t = Some m" by blast
  from track_metadata_ok [where t = ?t, OF example_raw_track_ok] m(1)
  have "features m = []" by auto
  with m(2) show "map_option features
     (extract_track_info (example_client (Raises ''timeout'')) (example_raw_track ''t1''))
     = Some []" by simp
next
  let ?t = "example_raw_track ''t1''"
  let ?af = "[(''tempo'', Some 98)] :: audio_features"
  have a: "processor_audio_features (example_client (Returns (Some [Some ?af]))) (the (t_id ?t))
             = Some ?af"
    by (simp add: example_client_lookup)
  have b: "?af \<noteq> []" by simp
  have c: "\<not> list_all (\<lambda>kd. map_of ?af (fst kd) \<noteq> None) feature_defaults"
    by (simp add: feature_defaults_def)
  show "extract_track_info (example_client (Returns (Some [Some [(''tempo'', Some 98)]])))
     (example_raw_track ''t1'') = None"
    by (rule extract_track_info_missing_key [OF example_raw_track_ok a b c])
qed


subsection \<open>Mood labels\<close>

lemma mood_queries_None:
  "(map_of mood_queries mood = None)
     = (mood \<notin> set [''happy'', ''chill'', ''workout'', ''sad'', ''party''])"
  by (simp add: mood_queries_def)

lemma mood_parameters_None:
  "(map_of mood_parameters mood = None)
     = (mood \<notin> set [''happy'', ''chill'', ''workout'', ''sad'', ''party''])"
  by (simp add: mood_parameters_def)

lemma collect_details_calls:
  "\<exists>more. snd (collect_details sp num ts tracks_data calls) = calls @ more"
proof (induction ts arbitrary: tracks_data calls)
  case Nil
  show ?case by simp
next
  case (Cons t ts)
  obtain d e where r: "get_track_details sp t = (d, e)" by (cases "get_track_details sp t")
  show ?case
  proof (cases d)
    case None
    from Cons.IH [of tracks_data "calls @ track_calls t"]
    obtain more where "snd (collect_details sp num ts tracks_data (calls @ track_calls t))
                         = (calls @ track_calls t) @ more" by blast
    with r None show ?thesis by simp
  next
    case (Some details)
    show ?thesis
    proof (cases e)
      case (Some msg)
      from Cons.IH [of tracks_data "calls @ track_calls t"]
      obtain more where "snd (collect_details sp num ts tracks_data (calls @ track_calls t))
                           = (calls @ track_calls t) @ more" by blast
      with r \<open>d = Some details\<close> Some show ?thesis by simp
    next
      case None
      show ?thesis
      proof (cases "num \<le> int (length (tracks_data @ [details]))")
        case True
        with r \<open>d = Some details\<close> None show ?thesis by simp
      next
        case False
        from Cons.IH [of "tracks_data @ [details]" "calls @ track_calls t"]
        obtain more where
          "snd (collect_details sp num ts (tracks_data @ [details]) (calls @ track_calls t))
             = (calls @ track_calls t) @ more" by blast
        with r \<open>d = Some details\<close> None False show ?thesis by simp
      qed
    qed
  qed
qed

text \<open>
  C7 (amended). For every mood label outside happy, chill, workout, sad and party and
  every requested count, get\_mood\_based\_recommendations (app.py) returns the message
  "Invalid mood" with an empty frame and issues no call to the client; for a label among
  the five it never returns that message and its first call is the search. 
  get\_mood\_recommendations (utils.py) also issues no call for a label outside the five,
  and returns an empty frame, with no message.
\<close>

theorem invalid_mood_rejected:
  "(mood \<notin> set [''happy'', ''chill'', ''workout'', ''sad'', ''party''] \<longrightarrow>
      get_mood_based_recommendations sp mood n = ((Empty_DataFrame, Some ''Invalid mood''), []) \<and>
      get_mood_recommendations sp mood n = (Empty_DataFrame, [])) \<and>
   (mood \<in> set [''happy'', ''chill'', ''workout'', ''sad'', ''party''] \<longrightarrow>
      snd (fst (get_mood_based_recommendations sp mood n)) \<noteq> Some ''Invalid mood'' \<and>
      (\<exists>query more. snd (get_mood_based_recommendations sp mood n)
                       = Search_Call query (n * 2) # more))"
proof (intro conjI impI)
  assume "mood \<notin> set [''happy'', ''chill'', ''workout'', ''sad'', ''party'']"
  then have a: "map_of mood_queries mood = None" and b: "map_of mood_parameters mood = None"
    using mood_queries_None [of mood] mood_parameters_None [of mood] by blast+
  show "get_mood_based_recommendations sp mood n
          = ((Empty_DataFrame, Some ''Invalid mood''), [])"
    by (simp add: get_mood_based_recommendations_def a)
  show "get_mood_recommendations sp mood n = (Empty_DataFrame, [])"
    by (simp add: get_mood_recommendations_def b)
next
  assume v: "mood \<in> set [''happy'', ''chill'', ''workout'', ''sad'', ''party'']"
  then have "map_of mood_queries mood \<noteq> None"
    using mood_queries_None [of mood] by blast
  then obtain query where q: "map_of mood_queries mood = Some query" by blast
  show "snd (fst (get_mood_based_recommendations sp mood n)) \<noteq> Some ''Invalid mood''"
  proof (cases "search_api sp query (n * 2)")
    case (Raises e)
    then show ?thesis by (simp add: get_mood_based_recommendations_def q)
  next
    case (Returns results)
    then show ?thesis
      by (simp add: get_mood_based_recommendations_def q split: prod.splits)
  qed
  show "\<exists>query more. snd (get_mood_based_recommendations sp mood n)
                       = Search_Call query (n * 2) # more"
  proof (cases "search_api sp query (n * 2)")
    case (Raises e)
    then show ?thesis by (simp add: get_mood_based_recommendations_def q)
  next
    case (Returns results)
    from collect_details_calls [of sp n results "[]" "[Search_Call query (n * 2)]"]
    obtain more where "snd (collect_details sp n results [] [Search_Call query (n * 2)])
                         = [Search_Call query (n * 2)] @ more" by blast
    with Returns show ?thesis
      by (auto simp: get_mood_based_recommendations_def q split: prod.splits)
  qed
qed

theorem invalid_mood_rejected_witness:
  "get_mood_based_recommendations (example_client (Raises ''timeout'')) ''upbeat'' 5
     = ((Empty_DataFrame, Some ''Invalid mood''), []) \<and>
   get_mood_recommendations (example_client (Raises ''timeout'')) ''upbeat'' 5
     = (Empty_DataFrame, []) \<and>
   snd (fst (get_mood_based_recommendations (example_client (Raises ''timeout'')) ''workout'' 5))
     \<noteq> Some ''Invalid mood''"
proof -
  have a: "''upbeat'' \<notin> set [''happy'', ''chill'', ''workout'', ''sad'', ''party'']" by simp
  have b: "''workout'' \<in> set [''happy'', ''chill'', ''workout'', ''sad'', ''party'']" by simp
  from invalid_mood_rejected
    [where mood = "''upbeat''" and sp = "example_client (Raises ''timeout'')" and n = 5] a
  have 1: "get_mood_based_recommendations (example_client (Raises ''timeout'')) ''upbeat'' 5
             = ((Empty_DataFrame, Some ''Invalid mood''), [])"
    and 2: "get_mood_recommendations (example_client (Raises ''timeout'')) ''upbeat'' 5
             = (Empty_DataFrame, [])"
    by blast+
  from invalid_mood_rejected
    [where mood = "''workout''" and sp = "example_client (Raises ''timeout'')" and n = 5] b
  have 3: "snd (fst (get_mood_based_recommendations (example_client (Raises ''timeout''))
                       ''workout'' 5)) \<noteq> Some ''Invalid mood''"
    by blast
  from 1 2 3 show ?thesis by blast
qed

text \<open>
  The claim as stated fails on utils.py: for an unrecognised label
  get\_mood\_recommendations returns the same empty frame that it returns for a recognised
  label whose request yields no track, so the caller cannot tell the two apart.
\<close>

theorem invalid_mood_silent_counterexample:
  "fst (get_mood_recommendations (example_client (Raises ''timeout'')) ''upbeat'' 5)
     = Empty_DataFrame \<and>
   fst (get_mood_recommendations (example_client (Raises ''timeout'')) ''happy'' 5)
     = Empty_DataFrame"
  by (simp add: get_mood_recommendations_def mood_parameters_def example_client_def
      data_frame_def)


subsection \<open>A candidate identical to the seed\<close>

lemma dot_Cons: "dot (a # u) (b # v) = a * b + dot u v"
  by (simp add: dot_def)

lemma abs_le_sqrt_mult:
  fixes c A B :: real
  assumes "c\<^sup>2 \<le> A * B" and "0 \<le> A" and "0 \<le> B"
  shows "\<bar>c\<bar> \<le> sqrt A * sqrt B"
proof -
  have "sqrt (c\<^sup>2) \<le> sqrt (A * B)" using assms(1) by (rule real_sqrt_le_mono)
  then show ?thesis by (simp add: real_sqrt_mult)
qed

lemma amgm_sqrt:
  fixes x y A B :: real
  assumes "0 \<le> A" and "0 \<le> B"
  shows "2 * (x * y) * (sqrt A * sqrt B) \<le> x * x * B + y * y * A"
proof -
  have sa: "sqrt A * sqrt A = A" and sb: "sqrt B * sqrt B = B" using assms by simp_all
  have "0 \<le> (x * sqrt B - y * sqrt A) * (x * sqrt B - y * sqrt A)" by simp
  also have "(x * sqrt B - y * sqrt A) * (x * sqrt B - y * sqrt A)
      = x * x * (sqrt B * sqrt B) + y * y * (sqrt A * sqrt A) - 2 * (x * y) * (sqrt A * sqrt B)"
    by (simp add: algebra_simps)
  finally show ?thesis unfolding sa sb by simp
qed

lemma cs_step:
  fixes a b c A B :: real
  assumes "c\<^sup>2 \<le> A * B" and "0 \<le> A" and "0 \<le> B"
  shows "(a * b + c)\<^sup>2 \<le> (a * a + A) * (b * b + B)"
proof -
  have c: "\<bar>c\<bar> \<le> sqrt A * sqrt B" by (rule abs_le_sqrt_mult [OF assms])
  have am: "2 * (\<bar>a\<bar> * \<bar>b\<bar>) * (sqrt A * sqrt B) \<le> \<bar>a\<bar> * \<bar>a\<bar> * B + \<bar>b\<bar> * \<bar>b\<bar> * A"
    by (rule amgm_sqrt [OF assms(2,3)])
  have sq: "\<bar>a\<bar> * \<bar>a\<bar> = a * a" "\<bar>b\<bar> * \<bar>b\<bar> = b * b" by simp_all
  have nn: "0 \<le> 2 * (\<bar>a\<bar> * \<bar>b\<bar>)" by simp
  have "(a * b) * c \<le> \<bar>(a * b) * c\<bar>" by (rule abs_ge_self)
  also have "\<dots> = (\<bar>a\<bar> * \<bar>b\<bar>) * \<bar>c\<bar>" by (simp add: abs_mult)
  finally have "2 * ((a * b) * c) \<le> 2 * (\<bar>a\<bar> * \<bar>b\<bar>) * \<bar>c\<bar>" by simp
  also have "\<dots> \<le> 2 * (\<bar>a\<bar> * \<bar>b\<bar>) * (sqrt A * sqrt B)"
    by (rule mult_left_mono [OF c nn])
  also have "\<dots> \<le> a * a * B + b * b * A" using am unfolding sq .
  finally have cross: "2 * ((a * b) * c) \<le> a * a * B + b * b * A" .
  have l: "(a * b + c)\<^sup>2 = a * a * (b * b) + 2 * ((a * b) * c) + c\<^sup>2"
    by (simp add: power2_eq_square algebra_simps)
  have r: "(a * a + A) * (b * b + B) = a * a * (b * b) + (a * a * B + b * b * A) + A * B"
    by (simp add: algebra_simps)
  show ?thesis unfolding l r using cross assms(1) by linarith
qed

lemma cauchy_schwarz_dot:
  "length u = length v \<Longrightarrow> (dot u v)\<^sup>2 \<le> dot u u * dot v v"
proof (induction u v rule: list_induct2)
  case Nil
  show ?case by (simp add: dot_def)
next
  case (Cons a u b v)
  show ?case
    unfolding dot_Cons
    by (rule cs_step [OF Cons.IH dot_self_nonneg dot_self_nonneg])
qed

lemma cosine_le_one:
  assumes "length u = length v"
  shows "cosine u v \<le> 1"
proof (cases "dot u u = 0 \<or> dot v v = 0")
  case True
  then show ?thesis by (simp add: cosine_def)
next
  case False
  then have pu: "0 < dot u u" and pv: "0 < dot v v"
    using dot_self_nonneg [of u] dot_self_nonneg [of v] by linarith+
  have "\<bar>dot u v\<bar> \<le> sqrt (dot u u) * sqrt (dot v v)"
    by (rule abs_le_sqrt_mult [OF cauchy_schwarz_dot [OF assms] dot_self_nonneg dot_self_nonneg])
  then have le: "dot u v \<le> sqrt (dot u u) * sqrt (dot v v)" by linarith
  have pos: "0 < sqrt (dot u u) * sqrt (dot v v)" using pu pv by simp
  have "dot u v / (sqrt (dot u u) * sqrt (dot v v)) \<le> 1"
    using le pos by (simp add: divide_le_eq)
  with False show ?thesis by (simp add: cosine_def)
qed

lemma cosine_self:
  assumes "dot u u \<noteq> 0"
  shows "cosine u u = 1"
proof -
  have "0 \<le> dot u u" by (rule dot_self_nonneg)
  then have "sqrt (dot u u) * sqrt (dot u u) = dot u u" by simp
  with assms show ?thesis by (simp add: cosine_def)
qed

lemma hd_sorted_rearrangement:
  fixes key :: "'a \<Rightarrow> real"
  assumes "mset L = mset F" and "sorted_wrt (\<lambda>a b. key b \<le> key a) L" and "F \<noteq> []"
    and "0 < m"
  shows "take m L \<noteq> [] \<and> hd (take m L) \<in> set F \<and> (\<forall>y \<in> set F. key y \<le> key (hd (take m L)))"
proof -
  from assms(1,3) have "L \<noteq> []" by (metis mset_zero_iff)
  then obtain h t where ht: "L = h # t" by (cases L) auto
  from assms(4) obtain k where m: "m = Suc k" by (cases m) auto
  have hd: "hd (take m L) = h" and ne: "take m L \<noteq> []" by (simp_all add: ht m)
  have set: "set L = set F" using assms(1) by (metis set_mset_mset)
  have "\<forall>y \<in> set L. key y \<le> key h"
    using assms(2) unfolding ht by auto
  with set have "\<forall>y \<in> set F. key y \<le> key h" by simp
  moreover have "h \<in> set F" using set ht by auto
  ultimately show ?thesis using hd ne by simp
qed

lemma nlargest_hd:
  fixes key :: "'a \<Rightarrow> real"
  assumes "1 \<le> n" and "F \<noteq> []" and "descending_sort_of key F (sort_values key F)"
  shows "nlargest sort_values n key F \<noteq> [] \<and>
    hd (nlargest sort_values n key F) \<in> set F \<and>
    (\<forall>y \<in> set F. key y \<le> key (hd (nlargest sort_values n key F)))"
proof -
  have pos: "0 < nat n" and np: "\<not> n \<le> 0" using assms(1) by simp_all
  have ms: "mset (sort_values key F) = mset F"
    and srt: "sorted_wrt (\<lambda>a b. key b \<le> key a) (sort_values key F)"
    using assms(3) by (simp_all add: descending_sort_of_def)
  show ?thesis
  proof (cases "int (length F) \<le> n")
    case True
    with np have eq: "nlargest sort_values n key F = take (nat n) (sort_values key F)"
      by (simp add: nlargest_def)
    show ?thesis
      unfolding eq by (rule hd_sorted_rearrangement [OF ms srt assms(2) pos])
  next
    case False
    with np have eq: "nlargest sort_values n key F = take (nat n) (sort_desc key F)"
      by (simp add: nlargest_def)
    show ?thesis
      unfolding eq
      by (rule hd_sorted_rearrangement [OF sort_desc_mset sort_desc_sorted assms(2) pos])
  qed
qed

lemma similarity_key_assigned:
  "length sims = length df \<Longrightarrow> k < length df
     \<Longrightarrow> similarity_key (assign_similarity df sims ! k) = sims ! k
        \<and> similarity (assign_similarity df sims ! k) = Some (sims ! k)"
  by (simp add: assign_similarity_nth similarity_key_def)

lemma best_row_first:
  assumes len: "length sims = length df" and i: "i < length df" and one: "sims ! i = 1"
    and le: "\<forall>s \<in> set sims. s \<le> 1"
    and h: "h \<in> set (assign_similarity df sims)"
    and best: "\<forall>y \<in> set (assign_similarity df sims). similarity_key y \<le> similarity_key h"
  shows "similarity h = Some 1 \<and>
    ((\<forall>k<length df. k \<noteq> i \<longrightarrow> sims ! k \<noteq> 1) \<longrightarrow> h = (df ! i)\<lparr>similarity := Some 1\<rparr>)"
proof -
  let ?F = "assign_similarity df sims"
  have lf: "length ?F = length df" by (rule assign_similarity_length [OF len])
  from h obtain k where k: "k < length df" "h = ?F ! k"
    unfolding in_set_conv_nth lf by blast
  have kh: "similarity_key h = sims ! k" and sh: "similarity h = Some (sims ! k)"
    using similarity_key_assigned [OF len k(1)] k(2) by simp_all
  have "?F ! i \<in> set ?F" using i lf by simp
  with best have "similarity_key (?F ! i) \<le> similarity_key h" by blast
  then have "1 \<le> sims ! k"
    using similarity_key_assigned [OF len i] one kh by simp
  moreover have "sims ! k \<le> 1" using le k(1) len by simp
  ultimately have sk: "sims ! k = 1" by simp
  have "(\<forall>k<length df. k \<noteq> i \<longrightarrow> sims ! k \<noteq> 1) \<longrightarrow> h = (df ! i)\<lparr>similarity := Some 1\<rparr>"
  proof
    assume "\<forall>k<length df. k \<noteq> i \<longrightarrow> sims ! k \<noteq> 1"
    with k(1) sk have "k = i" by blast
    with k(2) show "h = (df ! i)\<lparr>similarity := Some 1\<rparr>"
      using assign_similarity_nth [OF len i] one by simp
  qed
  with sh sk show ?thesis by simp
qed

lemma standardized_nonzero:
  assumes "j < length s" and "s ! j \<noteq> col_mean M j"
  shows "dot (standardized M s) (standardized M s) \<noteq> 0"
proof
  assume "dot (standardized M s) (standardized M s) = 0"
  then have z: "\<forall>x \<in> set (standardized M s). x = 0" by (rule dot_self_zero)
  have "standardized M s ! j \<in> set (standardized M s)"
    using assms(1) by (simp add: standardized_length)
  with z have "standardized M s ! j = 0" by blast
  then have "(s ! j - col_mean M j) / (if col_std M j = 0 then 1 else col_std M j) = 0"
    using assms(1) by (simp add: standardized_nth)
  with assms(2) show False by (simp split: if_splits)
qed

lemma cosine_scores:
  assumes rows: "\<forall>x \<in> set X. length x = length s"
  shows "(\<forall>v \<in> set (map (\<lambda>x. cosine (standardized M s) (standardized M x)) X). v \<le> 1) \<and>
    (\<forall>i j. i < length X \<and> X ! i = s \<and> j < length s \<and> s ! j \<noteq> col_mean M j \<longrightarrow>
       map (\<lambda>x. cosine (standardized M s) (standardized M x)) X ! i = 1)"
proof (intro conjI ballI allI impI)
  fix v
  assume "v \<in> set (map (\<lambda>x. cosine (standardized M s) (standardized M x)) X)"
  then obtain x where x: "x \<in> set X" and v: "v = cosine (standardized M s) (standardized M x)"
    by auto
  have "length (standardized M s) = length (standardized M x)"
    using rows x by (simp add: standardized_length)
  then show "v \<le> 1" unfolding v by (rule cosine_le_one)
next
  fix i j
  assume a: "i < length X \<and> X ! i = s \<and> j < length s \<and> s ! j \<noteq> col_mean M j"
  then have nz: "dot (standardized M s) (standardized M s) \<noteq> 0"
    using standardized_nonzero [of j s M] by blast
  from a show "map (\<lambda>x. cosine (standardized M s) (standardized M x)) X ! i = 1"
    by (simp add: cosine_self [OF nz])
qed

lemma assign_similarity_scored:
  "list_all (\<lambda>r. similarity r \<noteq> None) (assign_similarity df sims)"
  unfolding assign_similarity_def list_all_iff by (auto simp del: not_None_eq)

lemma ranked_first:
  assumes len: "length sims = length df" and i: "i < length df" and one: "sims ! i = 1"
    and le: "\<forall>s \<in> set sims. s \<le> 1" and n: "1 \<le> n"
    and ct: "\<forall>F. descending_sort_of similarity_key F (sort_values similarity_key F)"
  shows "nlargest sort_values n similarity_key (assign_similarity df sims) \<noteq> [] \<and>
    similarity (hd (nlargest sort_values n similarity_key (assign_similarity df sims))) = Some 1 \<and>
    ((\<forall>k<length df. k \<noteq> i \<longrightarrow> sims ! k \<noteq> 1) \<longrightarrow>
       hd (nlargest sort_values n similarity_key (assign_similarity df sims))
         = (df ! i)\<lparr>similarity := Some 1\<rparr>)"
proof -
  let ?F = "assign_similarity df sims"
  have lf: "length ?F = length df" by (rule assign_similarity_length [OF len])
  with i have ne: "?F \<noteq> []" by auto
  from ct have c: "descending_sort_of similarity_key ?F (sort_values similarity_key ?F)" by blast
  note hd = nlargest_hd
    [where sort_values = sort_values and key = similarity_key and F = ?F and n = n, OF n ne c]
  from hd have h: "hd (nlargest sort_values n similarity_key ?F) \<in> set ?F"
    and best: "\<forall>y \<in> set ?F. similarity_key y
                 \<le> similarity_key (hd (nlargest sort_values n similarity_key ?F))"
    by blast+
  from best_row_first [OF len i one le h best] hd show ?thesis by blast
qed

text \<open>
  C8 (amended). Let candidate \<open>i\<close> of the pool have the seed's feature row, let the seed's
  row differ from the column mean of the fitted matrix in some column, and let \<open>n \<ge> 1\<close>. Then
  the candidate's similarity is 1, no candidate's similarity is larger than 1, and the
  first record of the ranked output has similarity 1; it is candidate \<open>i\<close> when no other
  candidate has similarity 1. This holds for recommend\_songs (app.py), whose fitted matrix
  is the candidates' rows, and for recommend (utils.py), whose fitted matrix is the seed's
  row on top of the candidates' rows.
\<close>

theorem identical_candidate_ranks_first:
  assumes "has_columns cols df" and "i < length df" and "1 \<le> n"
    and "\<forall>F. descending_sort_of similarity_key F (sort_values similarity_key F)"
  shows
    "((feature_row 0.5 cols (df ! i) = feature_row 0.5 cols seed \<and>
       (\<exists>j<length cols. feature_row 0.5 cols seed ! j
                          \<noteq> col_mean (feature_matrix 0.5 cols df) j)) \<longrightarrow>
      (\<exists>sims ranked.
         similarities_app cols seed df = Inr sims \<and> length sims = length df \<and>
         sims ! i = 1 \<and> (\<forall>s \<in> set sims. s \<le> 1) \<and>
         score_and_rank sort_values cols seed n df = Inr ranked \<and> ranked \<noteq> [] \<and>
         similarity (hd ranked) = Some 1 \<and>
         ((\<forall>k<length df. k \<noteq> i \<longrightarrow> sims ! k \<noteq> 1) \<longrightarrow>
            hd ranked = (df ! i)\<lparr>similarity := Some 1\<rparr>))) \<and>
     ((feature_row 0 cols (df ! i) = feature_row 0 cols seed \<and>
       (\<exists>j<length cols. feature_row 0 cols seed ! j
                          \<noteq> col_mean (feature_row 0 cols seed # feature_matrix 0 cols df) j)) \<longrightarrow>
      (\<exists>sims ranked.
         similarities cols seed df = Inr sims \<and> length sims = length df \<and>
         sims ! i = 1 \<and> (\<forall>s \<in> set sims. s \<le> 1) \<and>
         recommend to_year sort_values cols seed (DataFrame df) n None = Inr (DataFrame ranked) \<and>
         ranked \<noteq> [] \<and> similarity (hd ranked) = Some 1 \<and>
         ((\<forall>k<length df. k \<noteq> i \<longrightarrow> sims ! k \<noteq> 1) \<longrightarrow>
            hd ranked = (df ! i)\<lparr>similarity := Some 1\<rparr>)))"
proof (intro conjI impI)
  from assms(2) have ne: "df \<noteq> []" by auto
  let ?s = "feature_row 0.5 cols seed"
  let ?X = "feature_matrix 0.5 cols df"
  let ?sims = "map (\<lambda>x. cosine (standardized ?X ?s) (standardized ?X x)) ?X"
  assume a: "feature_row 0.5 cols (df ! i) = ?s \<and>
       (\<exists>j<length cols. ?s ! j \<noteq> col_mean ?X j)"
  then obtain j where j: "j < length ?s" "?s ! j \<noteq> col_mean ?X j"
    by (auto simp: feature_row_length)
  have rows: "\<forall>x \<in> set ?X. length x = length ?s"
    by (simp add: feature_matrix_rows feature_row_length)
  have xi: "i < length ?X" "?X ! i = ?s"
    using assms(2) a by (simp_all add: feature_matrix_def)
  have sims: "similarities_app cols seed df = Inr ?sims"
    by (rule similarities_app_eq [OF assms(1) ne])
  have len: "length ?sims = length df" by (simp add: feature_matrix_def)
  from cosine_scores [OF rows, of ?X] xi j
  have one: "?sims ! i = 1" and le: "\<forall>v \<in> set ?sims. v \<le> 1" by blast+
  let ?F = "assign_similarity df ?sims"
  have lf: "length ?F = length df" by (rule assign_similarity_length [OF len])
  have n': "1 \<le> min n (int (length ?F))" using assms(2,3) lf by simp
  note r = ranked_first
    [where sort_values = sort_values and df = df and sims = ?sims and i = i
       and n = "min n (int (length ?F))", OF len assms(2) one le n' assms(4)]
  have sr: "score_and_rank sort_values cols seed n df
              = Inr (nlargest sort_values (min n (int (length ?F))) similarity_key ?F)"
    by (simp add: score_and_rank_def sims and_then_def top_recommendations_def)
  show "\<exists>sims ranked.
         similarities_app cols seed df = Inr sims \<and> length sims = length df \<and>
         sims ! i = 1 \<and> (\<forall>s \<in> set sims. s \<le> 1) \<and>
         score_and_rank sort_values cols seed n df = Inr ranked \<and> ranked \<noteq> [] \<and>
         similarity (hd ranked) = Some 1 \<and>
         ((\<forall>k<length df. k \<noteq> i \<longrightarrow> sims ! k \<noteq> 1) \<longrightarrow>
            hd ranked = (df ! i)\<lparr>similarity := Some 1\<rparr>)"
    using sims len one le sr r by blast
next
  from assms(2) have ne: "df \<noteq> []" by auto
  let ?s = "feature_row 0 cols seed"
  let ?X = "feature_matrix 0 cols df"
  let ?M = "?s # ?X"
  let ?sims = "map (\<lambda>x. cosine (standardized ?M ?s) (standardized ?M x)) ?X"
  assume a: "feature_row 0 cols (df ! i) = ?s \<and>
       (\<exists>j<length cols. ?s ! j \<noteq> col_mean ?M j)"
  then obtain j where j: "j < length ?s" "?s ! j \<noteq> col_mean ?M j"
    by (auto simp: feature_row_length)
  have rows: "\<forall>x \<in> set ?X. length x = length ?s"
    by (simp add: feature_matrix_rows feature_row_length)
  have xi: "i < length ?X" "?X ! i = ?s"
    using assms(2) a by (simp_all add: feature_matrix_def)
  have sims: "similarities cols seed df = Inr ?sims"
    by (rule similarities_eq [OF assms(1) ne])
  have len: "length ?sims = length df" by (simp add: feature_matrix_def)
  from cosine_scores [OF rows, of ?M] xi j
  have one: "?sims ! i = 1" and le: "\<forall>v \<in> set ?sims. v \<le> 1" by blast+
  let ?F = "assign_similarity df ?sims"
  note r = ranked_first
    [where sort_values = sort_values and df = df and sims = ?sims and i = i and n = n,
     OF len assms(2) one le assms(3,4)]
  have rc: "recommend to_year sort_values cols seed (DataFrame df) n None
              = Inr (DataFrame (nlargest sort_values n similarity_key ?F))"
    using ne
    by (simp add: recommend_def and_then_def sims top_n_def assign_similarity_scored Let_def
        del: not_None_eq)
  show "\<exists>sims ranked.
         similarities cols seed df = Inr sims \<and> length sims = length df \<and>
         sims ! i = 1 \<and> (\<forall>s \<in> set sims. s \<le> 1) \<and>
         recommend to_year sort_values cols seed (DataFrame df) n None = Inr (DataFrame ranked) \<and>
         ranked \<noteq> [] \<and> similarity (hd ranked) = Some 1 \<and>
         ((\<forall>k<length df. k \<noteq> i \<longrightarrow> sims ! k \<noteq> 1) \<longrightarrow>
            hd ranked = (df ! i)\<lparr>similarity := Some 1\<rparr>)"
    using sims len one le rc r by blast
qed


lemma cosine_seed_at_mean:
  assumes "\<forall>j<length s. s ! j = col_mean M j"
  shows "cosine (standardized M s) y = 0"
proof -
  have "\<forall>x \<in> set (standardized M s). x = 0"
  proof
    fix x
    assume "x \<in> set (standardized M s)"
    then obtain j where j: "j < length s" "x = standardized M s ! j"
      unfolding in_set_conv_nth standardized_length by blast
    with assms show "x = 0" by (simp add: standardized_nth)
  qed
  then have "dot (standardized M s) (standardized M s) = 0" by (rule dot_zero_left)
  then show ?thesis by (simp add: cosine_def)
qed

lemma at_mean_from_map:
  "map f [0..<length s] = s \<Longrightarrow> \<forall>j<length s. s ! j = f j"
  by (metis add_0 nth_map_upt diff_zero length_upt)

lemma example_standardized_four:
  "standardized [[1, 0.5, 0.6, 120, 0.1, 0.1, 0, -5, 0.05], [1, 0.5, 0.6, 120, 0.1, 0.1, 0, -5, 0.05],
                 [0, 0.5, 0.6, 120, 0.1, 0.1, 0, -5, 0.05], [0, 0.5, 0.6, 120, 0.1, 0.1, 0, -5, 0.05]]
     [1, 0.5, 0.6, 120, 0.1, 0.1, 0, -5, 0.05] = [1, 0, 0, 0, 0, 0, 0, 0, 0]"
  "standardized [[1, 0.5, 0.6, 120, 0.1, 0.1, 0, -5, 0.05], [1, 0.5, 0.6, 120, 0.1, 0.1, 0, -5, 0.05],
                 [0, 0.5, 0.6, 120, 0.1, 0.1, 0, -5, 0.05], [0, 0.5, 0.6, 120, 0.1, 0.1, 0, -5, 0.05]]
     [0, 0.5, 0.6, 120, 0.1, 0.1, 0, -5, 0.05] = [-1, 0, 0, 0, 0, 0, 0, 0, 0]"
  by (simp_all add: standardized_def upt_9 col_mean_def col_std_def sqrt_quarter power2_eq_square)

lemma example_cosine_self:
  "cosine [1, 0, 0, 0, 0, 0, 0, 0, 0] [1, 0, 0, 0, 0, 0, 0, 0, 0] = 1"
  by (simp add: cosine_def dot_def)

lemma example_scores_app:
  "similarities_app feature_cols (example_track ''s'' 50 ''2020'' (example_features 1 0.5))
     [example_track ''a'' 40 ''2019'' (example_features 1 0.5),
      example_track ''b'' 30 ''2018'' (example_features 0 0.5)] = Inr [1, - 1]"
proof -
  have hc: "has_columns feature_cols
     [example_track ''a'' 40 ''2019'' (example_features 1 0.5),
      example_track ''b'' 30 ''2018'' (example_features 0 0.5)]"
    by (rule example_has_columns)
  have ne: "[example_track ''a'' 40 ''2019'' (example_features 1 0.5),
      example_track ''b'' 30 ''2018'' (example_features 0 0.5)] \<noteq> []" by simp
  show ?thesis
    by (simp only: similarities_app_eq [OF hc ne] feature_matrix_def list.map
        example_feature_row example_standardized_joint example_cosines example_cosine_self)
qed

lemma example_scores_joint:
  "similarities feature_cols (example_track ''s'' 50 ''2020'' (example_features 1 0.5))
     [example_track ''a'' 40 ''2019'' (example_features 1 0.5),
      example_track ''b'' 30 ''2018'' (example_features 0 0.5),
      example_track ''c'' 20 ''2017'' (example_features 0 0.5)] = Inr [1, - 1, - 1]"
proof -
  have hc: "has_columns feature_cols
     [example_track ''a'' 40 ''2019'' (example_features 1 0.5),
      example_track ''b'' 30 ''2018'' (example_features 0 0.5),
      example_track ''c'' 20 ''2017'' (example_features 0 0.5)]"
    by (rule example_has_columns)
  have ne: "[example_track ''a'' 40 ''2019'' (example_features 1 0.5),
      example_track ''b'' 30 ''2018'' (example_features 0 0.5),
      example_track ''c'' 20 ''2017'' (example_features 0 0.5)] \<noteq> []" by simp
  show ?thesis
    by (simp only: similarities_eq [OF hc ne] feature_matrix_def list.map
        example_feature_row example_standardized_four example_cosines example_cosine_self)
qed


theorem identical_candidate_ranks_first_witness:
  "(case score_and_rank example_sort_values feature_cols
           (example_track ''s'' 50 ''2020'' (example_features 1 0.5)) 2
           [example_track ''a'' 40 ''2019'' (example_features 1 0.5),
            example_track ''b'' 30 ''2018'' (example_features 0 0.5)] of
      Inl e \<Rightarrow> None
    | Inr ranked \<Rightarrow> Some (hd ranked))
     = Some ((example_track ''a'' 40 ''2019'' (example_features 1 0.5))\<lparr>similarity := Some 1\<rparr>) \<and>
   (case recommend example_to_datetime_year example_sort_values feature_cols
           (example_track ''s'' 50 ''2020'' (example_features 1 0.5))
           (DataFrame
              [example_track ''a'' 40 ''2019'' (example_features 1 0.5),
               example_track ''b'' 30 ''2018'' (example_features 0 0.5),
               example_track ''c'' 20 ''2017'' (example_features 0 0.5)]) 3 None of
      Inl e \<Rightarrow> None
    | Inr Empty_DataFrame \<Rightarrow> None
    | Inr (DataFrame ranked) \<Rightarrow> Some (hd ranked))
     = Some ((example_track ''a'' 40 ''2019'' (example_features 1 0.5))\<lparr>similarity := Some 1\<rparr>)"
proof -
  let ?seed = "example_track ''s'' 50 ''2020'' (example_features 1 0.5)"
  let ?a = "example_track ''a'' 40 ''2019'' (example_features 1 0.5)"
  let ?b = "example_track ''b'' 30 ''2018'' (example_features 0 0.5)"
  let ?c = "example_track ''c'' 20 ''2017'' (example_features 0 0.5)"
  have ct: "\<forall>F. descending_sort_of similarity_key F (example_sort_values similarity_key F)"
    by (simp add: example_sort_contract)
  have A: "(case score_and_rank example_sort_values feature_cols ?seed 2 [?a, ?b] of
              Inl e \<Rightarrow> None | Inr ranked \<Rightarrow> Some (hd ranked))
           = Some (?a\<lparr>similarity := Some 1\<rparr>)"
  proof -
    have hc: "has_columns feature_cols [?a, ?b]" by (rule example_has_columns)
    have i: "0 < length [?a, ?b]" by simp
    have n: "(1::int) \<le> 2" by simp
    have same: "feature_row 0.5 feature_cols ([?a, ?b] ! 0) = feature_row 0.5 feature_cols ?seed"
      by (simp add: example_feature_row)
    have "feature_row 0.5 feature_cols ?seed ! 0
            \<noteq> col_mean (feature_matrix 0.5 feature_cols [?a, ?b]) 0"
      by (simp add: example_feature_row feature_matrix_def col_mean_def)
    then have off: "\<exists>j<length feature_cols. feature_row 0.5 feature_cols ?seed ! j
                      \<noteq> col_mean (feature_matrix 0.5 feature_cols [?a, ?b]) j"
      by (intro exI [of _ 0]) (simp add: feature_cols_def)
    from identical_candidate_ranks_first
      [where sort_values = example_sort_values and cols = feature_cols and df = "[?a, ?b]"
         and i = 0 and n = 2 and seed = ?seed, OF hc i n ct] same off
    obtain sims ranked where r:
      "similarities_app feature_cols ?seed [?a, ?b] = Inr sims"
      "score_and_rank example_sort_values feature_cols ?seed 2 [?a, ?b] = Inr ranked"
      "(\<forall>k<length [?a, ?b]. k \<noteq> 0 \<longrightarrow> sims ! k \<noteq> 1) \<longrightarrow>
         hd ranked = ([?a, ?b] ! 0)\<lparr>similarity := Some 1\<rparr>"
      by blast
    from r(1) [unfolded example_scores_app] have sims: "sims = [1, - 1]" by simp
    have "\<forall>k<length [?a, ?b]. k \<noteq> 0 \<longrightarrow> sims ! k \<noteq> 1"
      unfolding sims by (simp add: less_Suc_eq)
    with r(3) have "hd ranked = ?a\<lparr>similarity := Some 1\<rparr>" by simp
    with r(2) show ?thesis by simp
  qed
  have B: "(case recommend example_to_datetime_year example_sort_values feature_cols ?seed
                   (DataFrame [?a, ?b, ?c]) 3 None of
              Inl e \<Rightarrow> None
            | Inr Empty_DataFrame \<Rightarrow> None
            | Inr (DataFrame ranked) \<Rightarrow> Some (hd ranked))
           = Some (?a\<lparr>similarity := Some 1\<rparr>)"
  proof -
    have hc: "has_columns feature_cols [?a, ?b, ?c]" by (rule example_has_columns)
    have i: "0 < length [?a, ?b, ?c]" by simp
    have n: "(1::int) \<le> 3" by simp
    have same: "feature_row 0 feature_cols ([?a, ?b, ?c] ! 0) = feature_row 0 feature_cols ?seed"
      by (simp add: example_feature_row)
    have "feature_row 0 feature_cols ?seed ! 0
            \<noteq> col_mean (feature_row 0 feature_cols ?seed
                          # feature_matrix 0 feature_cols [?a, ?b, ?c]) 0"
      by (simp add: example_feature_row feature_matrix_def col_mean_def)
    then have off: "\<exists>j<length feature_cols. feature_row 0 feature_cols ?seed ! j
                      \<noteq> col_mean (feature_row 0 feature_cols ?seed
                                    # feature_matrix 0 feature_cols [?a, ?b, ?c]) j"
      by (intro exI [of _ 0]) (simp add: feature_cols_def)
    from identical_candidate_ranks_first
      [where sort_values = example_sort_values and cols = feature_cols
         and df = "[?a, ?b, ?c]" and i = 0 and n = 3 and seed = ?seed
         and to_year = example_to_datetime_year, OF hc i n ct] same off
    obtain sims ranked where r:
      "similarities feature_cols ?seed [?a, ?b, ?c] = Inr sims"
      "recommend example_to_datetime_year example_sort_values feature_cols ?seed
         (DataFrame [?a, ?b, ?c]) 3 None = Inr (DataFrame ranked)"
      "(\<forall>k<length [?a, ?b, ?c]. k \<noteq> 0 \<longrightarrow> sims ! k \<noteq> 1) \<longrightarrow>
         hd ranked = ([?a, ?b, ?c] ! 0)\<lparr>similarity := Some 1\<rparr>"
      by blast
    from r(1) [unfolded example_scores_joint] have sims: "sims = [1, - 1, - 1]" by simp
    have "\<forall>k<length [?a, ?b, ?c]. k \<noteq> 0 \<longrightarrow> sims ! k \<noteq> 1"
      unfolding sims by (simp add: less_Suc_eq)
    with r(3) have "hd ranked = ?a\<lparr>similarity := Some 1\<rparr>" by simp
    with r(2) show ?thesis by simp
  qed
  from A B show ?thesis by (rule conjI)
qed

lemma example_binary_feature_row:
  "feature_row fill feature_cols (example_track i p d (example_binary_features a))
     = [a, 0.5, 0.5, 120, 0.25, 0.25, 0, -5, 0.125]"
  by (simp add: feature_row_def feature_cols_def example_track_def example_binary_features_def
      get_feature_def)

lemma example_binary_has_columns:
  "has_columns feature_cols (example_track i p d (example_binary_features a) # df)"
  by (simp add: has_columns_def feature_cols_def example_track_def example_binary_features_def
      del: not_None_eq)

lemma example_binary_scores:
  "similarities_app feature_cols (example_track ''s'' 50 ''2020'' (example_binary_features 0.5))
     [example_track ''b'' 40 ''2019'' (example_binary_features 0.75),
      example_track ''a'' 30 ''2018'' (example_binary_features 0.5),
      example_track ''c'' 20 ''2017'' (example_binary_features 0.25)] = Inr [0, 0, 0]"
  "similarities feature_cols (example_track ''s'' 50 ''2020'' (example_binary_features 0.5))
     [example_track ''b'' 40 ''2019'' (example_binary_features 0.75),
      example_track ''a'' 30 ''2018'' (example_binary_features 0.5),
      example_track ''c'' 20 ''2017'' (example_binary_features 0.25)] = Inr [0, 0, 0]"
proof -
  let ?seed = "example_track ''s'' 50 ''2020'' (example_binary_features 0.5)"
  let ?df = "[example_track ''b'' 40 ''2019'' (example_binary_features 0.75),
      example_track ''a'' 30 ''2018'' (example_binary_features 0.5),
      example_track ''c'' 20 ''2017'' (example_binary_features 0.25)]"
  have hc: "has_columns feature_cols ?df" by (rule example_binary_has_columns)
  have ne: "?df \<noteq> []" by simp
  have l5: "length (feature_row 0.5 feature_cols ?seed) = 9"
    and l0: "length (feature_row 0 feature_cols ?seed) = 9"
    by (simp_all add: feature_row_length feature_cols_def)
  have "map (col_mean (feature_matrix 0.5 feature_cols ?df))
          [0..<length (feature_row 0.5 feature_cols ?seed)] = feature_row 0.5 feature_cols ?seed"
    unfolding l5
    by (simp add: upt_9 example_binary_feature_row feature_matrix_def col_mean_def)
  then have m5: "\<forall>j<length (feature_row 0.5 feature_cols ?seed).
      feature_row 0.5 feature_cols ?seed ! j = col_mean (feature_matrix 0.5 feature_cols ?df) j"
    by (rule at_mean_from_map)
  have "map (col_mean (feature_row 0 feature_cols ?seed # feature_matrix 0 feature_cols ?df))
          [0..<length (feature_row 0 feature_cols ?seed)] = feature_row 0 feature_cols ?seed"
    unfolding l0
    by (simp add: upt_9 example_binary_feature_row feature_matrix_def col_mean_def)
  then have m0: "\<forall>j<length (feature_row 0 feature_cols ?seed).
      feature_row 0 feature_cols ?seed ! j
        = col_mean (feature_row 0 feature_cols ?seed # feature_matrix 0 feature_cols ?df) j"
    by (rule at_mean_from_map)
  show "similarities_app feature_cols ?seed ?df = Inr [0, 0, 0]"
    unfolding similarities_app_eq [OF hc ne] cosine_seed_at_mean [OF m5]
    by (simp add: feature_matrix_def)
  show "similarities feature_cols ?seed ?df = Inr [0, 0, 0]"
    unfolding similarities_eq [OF hc ne] cosine_seed_at_mean [OF m0]
    by (simp add: feature_matrix_def)
qed

text \<open>
  The claim as stated fails in both files. Take a seed with danceability 0.5, a pool of
  candidate B with danceability 0.75, candidate A equal to the seed and candidate C with
  danceability 0.25, every other feature being the same in all four, and ask for two
  recommendations. Under either fit every column mean is the seed's value, so the seed's
  standardized row is the zero row and \<^verbatim>\<open>cosine_similarity\<close> gives 0 for every candidate:
  A is scored 0, not 1, and the stable selection of two of three tied rows puts B first.
\<close>

theorem identical_candidate_counterexample:
  "score_and_rank example_sort_values feature_cols
     (example_track ''s'' 50 ''2020'' (example_binary_features 0.5)) 2
     [example_track ''b'' 40 ''2019'' (example_binary_features 0.75),
      example_track ''a'' 30 ''2018'' (example_binary_features 0.5),
      example_track ''c'' 20 ''2017'' (example_binary_features 0.25)]
     = Inr [(example_track ''b'' 40 ''2019'' (example_binary_features 0.75))\<lparr>similarity := Some 0\<rparr>,
            (example_track ''a'' 30 ''2018'' (example_binary_features 0.5))\<lparr>similarity := Some 0\<rparr>] \<and>
   recommend example_to_datetime_year example_sort_values feature_cols
     (example_track ''s'' 50 ''2020'' (example_binary_features 0.5))
     (DataFrame
        [example_track ''b'' 40 ''2019'' (example_binary_features 0.75),
         example_track ''a'' 30 ''2018'' (example_binary_features 0.5),
         example_track ''c'' 20 ''2017'' (example_binary_features 0.25)]) 2 None
     = Inr (DataFrame
         [(example_track ''b'' 40 ''2019'' (example_binary_features 0.75))\<lparr>similarity := Some 0\<rparr>,
          (example_track ''a'' 30 ''2018'' (example_binary_features 0.5))\<lparr>similarity := Some 0\<rparr>])"
proof -
  let ?seed = "example_track ''s'' 50 ''2020'' (example_binary_features 0.5)"
  let ?b = "example_track ''b'' 40 ''2019'' (example_binary_features 0.75)"
  let ?a = "example_track ''a'' 30 ''2018'' (example_binary_features 0.5)"
  let ?c = "example_track ''c'' 20 ''2017'' (example_binary_features 0.25)"
  let ?scored = "[?b\<lparr>similarity := Some 0\<rparr>, ?a\<lparr>similarity := Some 0\<rparr>, ?c\<lparr>similarity := Some 0\<rparr>]"
  have scored: "assign_similarity [?b, ?a, ?c] [0, 0, 0] = ?scored"
    by (simp add: assign_similarity_def)
  have sorted: "take (nat 2) (sort_desc similarity_key ?scored)
                  = [?b\<lparr>similarity := Some 0\<rparr>, ?a\<lparr>similarity := Some 0\<rparr>]"
    by (simp add: similarity_key_def)
  have n: "(1::int) \<le> 2" by simp
  have len: "nat 2 < length ?scored" by simp
  have all: "list_all (\<lambda>r. similarity r \<noteq> None) ?scored" by (simp del: not_None_eq)
  have A: "score_and_rank example_sort_values feature_cols ?seed 2 [?b, ?a, ?c]
             = Inr [?b\<lparr>similarity := Some 0\<rparr>, ?a\<lparr>similarity := Some 0\<rparr>]"
    by (simp only: score_and_rank_def example_binary_scores and_then_def sum.case scored
        top_recommendations_small [OF n len] sorted)
  have B: "recommend example_to_datetime_year example_sort_values feature_cols ?seed
             (DataFrame [?b, ?a, ?c]) 2 None
             = Inr (DataFrame [?b\<lparr>similarity := Some 0\<rparr>, ?a\<lparr>similarity := Some 0\<rparr>])"
    by (simp only: recommend_def option.case and_then_def sum.case dataframe.case
        list.distinct if_False Let_def example_binary_scores scored
        top_n_small [OF n len all] sorted)
  from A B show ?thesis by (rule conjI)
qed

end
